theory Spec2Isabelle
  imports Complex_Main
begin


section \<open>JavaScript values, exceptions and the outside world\<close>

text \<open>
  The value \<^verbatim>\<open>JSON.parse\<close> returns. TypeScript's types are erased at run time and
  \<^verbatim>\<open>parseResponse\<close> stores what the model sent without checking it, so the fields of a
  quiz that hold the model's values are JSON values here. The result of a property access is
  a \<open>json option\<close>: \<open>None\<close> is JavaScript's \<^verbatim>\<open>undefined\<close>.
\<close>

datatype json =
    JNull
  | JBool bool
  | JNum rat
  | JStr string
  | JArr "json list"
  | JObj "(string \<times> json) list"

text \<open>
  A thrown value: an \<^verbatim>\<open>Error\<close> with its message (\<^verbatim>\<open>TypeError\<close> and
  \<^verbatim>\<open>SyntaxError\<close> are raised by the engine and by \<^verbatim>\<open>JSON.parse\<close>, their
  messages are the engine's), or a value that is no \<^verbatim>\<open>Error\<close>, with the text
  \<^verbatim>\<open>String(value)\<close> gives.
\<close>

datatype exn = Error string | TypeError string | SyntaxError string | Thrown string


text \<open>
  An instant, as \<^verbatim>\<open>new Date().toISOString()\<close> writes it and \<^verbatim>\<open>new Date(s).getTime()\<close>
  reads it back: the milliseconds since the epoch.
\<close>

type_synonym timestamp = int

fun truthy :: "json \<Rightarrow> bool" where
  "truthy JNull = False"
| "truthy (JBool b) = b"
| "truthy (JNum n) = (n \<noteq> 0)"
| "truthy (JStr s) = (s \<noteq> [])"
| "truthy (JArr xs) = True"
| "truthy (JObj kvs) = True"

text \<open>
  \<^verbatim>\<open>v.k\<close> for one of the keys the parser reads (none of them is a property of a
  prototype): it throws on \<^verbatim>\<open>null\<close>, is the member of an object (the last one of
  a repeated key, as \<^verbatim>\<open>JSON.parse\<close> keeps it) and is \<^verbatim>\<open>undefined\<close> on anything else.
\<close>

definition getProp :: "json \<Rightarrow> string \<Rightarrow> exn + json option" where
  "getProp v k =
     (case v of
        JNull \<Rightarrow> Inl (TypeError (''Cannot read properties of null (reading '' @ k @ '')''))
      | JObj kvs \<Rightarrow> Inr (map_of (rev kvs) k)
      | _ \<Rightarrow> Inr None)"

text \<open>\<^verbatim>\<open>a || b\<close>\<close>

definition orElse :: "json option \<Rightarrow> json \<Rightarrow> json" where
  "orElse a b = (case a of None \<Rightarrow> b | Some v \<Rightarrow> if truthy v then v else b)"

text \<open>\<^verbatim>\<open>xs.map(f)\<close> for a callback that may throw: the first exception ends the loop.\<close>

fun mapM :: "('a \<Rightarrow> exn + 'b) \<Rightarrow> 'a list \<Rightarrow> exn + 'b list" where
  "mapM f [] = Inr []"
| "mapM f (x # xs) =
     (case f x of
        Inl e \<Rightarrow> Inl e
      | Inr y \<Rightarrow> (case mapM f xs of Inl e \<Rightarrow> Inl e | Inr ys \<Rightarrow> Inr (y # ys)))"

text \<open>The decimal digits of a number, as a template string writes it.\<close>

fun decimal :: "nat \<Rightarrow> string" where
  "decimal n =
     (if n < 10 then [char_of (48 + n)]
      else decimal (n div 10) @ [char_of (48 + n mod 10)])"

section \<open>QuizGenerator.ts: the quiz and its parser\<close>

datatype QuizDifficulty = beginner | intermediate | advanced

record QuizChoiceData =
  choice_id :: json
  choice_text :: json
  isCorrect :: bool

record QuizQuestionData =
  question_id :: string
  questionNumber :: nat
  technology :: json
  difficulty :: QuizDifficulty
  questionText :: json
  choices :: "QuizChoiceData list"
  explanation :: json

record QuizData =
  quiz_id :: string
  questions :: "QuizQuestionData list"
  targetTechnologies :: "string list"
  createdAt :: timestamp

text \<open>
  What \<^verbatim>\<open>parseResponse\<close> takes from outside: the first capture group of
  \<^verbatim>\<open>response.match(/```json\s*([\s\S]*?)\s*```/)\<close> (\<open>None\<close> when there is no match),
  \<^verbatim>\<open>JSON.parse\<close>, the successive results of \<^verbatim>\<open>uuidv4()\<close> (the \<open>k\<close>-th call
  gives \<open>uuidv4 k\<close>) and the clock.
\<close>

record externals =
  jsonMatch :: "string \<Rightarrow> string option"
  JSON_parse :: "string \<Rightarrow> exn + json"
  uuidv4 :: "nat \<Rightarrow> string"
  nowISO :: timestamp

text \<open>
  The Japanese string literals of the source are written in English here; each stands for
  the literal at the same place of the source.
\<close>

definition MSG_NO_JSON_BLOCK :: string where
  "MSG_NO_JSON_BLOCK = ''JSON block not found''"

definition MSG_NO_QUESTION_LIST :: string where
  "MSG_NO_QUESTION_LIST = ''question list not found''"

definition validateDifficulty :: "json option \<Rightarrow> QuizDifficulty" where
  "validateDifficulty d =
     (if d = Some (JStr ''beginner'') then beginner
      else if d = Some (JStr ''intermediate'') then intermediate
      else if d = Some (JStr ''advanced'') then advanced
      else intermediate)"

text \<open>The callback of \<^verbatim>\<open>(q.choices || []).map\<close>.\<close>

definition parseChoice :: "json \<Rightarrow> exn + QuizChoiceData" where
  "parseChoice c =
     (case getProp c ''id'' of
        Inl e \<Rightarrow> Inl e
      | Inr i \<Rightarrow>
     (case getProp c ''text'' of
        Inl e \<Rightarrow> Inl e
      | Inr t \<Rightarrow>
     (case getProp c ''isCorrect'' of
        Inl e \<Rightarrow> Inl e
      | Inr b \<Rightarrow>
          Inr \<lparr> choice_id = orElse i (JStr ''''),
                choice_text = orElse t (JStr ''''),
                isCorrect = (b = Some (JBool True)) \<rparr>)))"

text \<open>
  The \<^verbatim>\<open>for (const choice of choices)\<close> loop of the repair, with its flag
  \<^verbatim>\<open>foundFirst\<close>.
\<close>

fun keepFirstCorrect :: "bool \<Rightarrow> QuizChoiceData list \<Rightarrow> QuizChoiceData list" where
  "keepFirstCorrect foundFirst [] = []"
| "keepFirstCorrect foundFirst (choice # rest) =
     (if isCorrect choice then
        (if foundFirst then choice\<lparr>isCorrect := False\<rparr> # keepFirstCorrect foundFirst rest
         else choice # keepFirstCorrect True rest)
      else choice # keepFirstCorrect foundFirst rest)"

definition repairChoices :: "QuizChoiceData list \<Rightarrow> QuizChoiceData list" where
  "repairChoices cs =
     (let correctCount = length (filter isCorrect cs) in
      if correctCount \<noteq> 1 then
        (if correctCount = 0 \<and> length cs > 0 then cs[0 := (cs ! 0)\<lparr>isCorrect := True\<rparr>]
         else if correctCount > 1 then keepFirstCorrect False cs
         else cs)
      else cs)"

text \<open>
  \<^verbatim>\<open>(q.choices || []).map((c) => ...)\<close>: the choices of a question as the model gave
  them, before the repair. A value of \<^verbatim>\<open>q.choices\<close> that is truthy and no array has no
  method \<^verbatim>\<open>map\<close>, and the call throws.
\<close>

definition modelChoices :: "json \<Rightarrow> exn + QuizChoiceData list" where
  "modelChoices q =
     (case getProp q ''choices'' of
        Inl e \<Rightarrow> Inl e
      | Inr cs \<Rightarrow>
          (case orElse cs (JArr []) of
             JArr raw \<Rightarrow> mapM parseChoice raw
           | _ \<Rightarrow> Inl (TypeError ''(q.choices || []).map is not a function'')))"

text \<open>\<^verbatim>\<open>q.technology || targetTechnologies[0] || "General"\<close>\<close>

definition questionTechnology :: "json option \<Rightarrow> string list \<Rightarrow> json" where
  "questionTechnology t techs =
     orElse t (case techs of
                 [] \<Rightarrow> JStr ''General''
               | t0 # _ \<Rightarrow> if t0 \<noteq> [] then JStr t0 else JStr ''General'')"

text \<open>
  The callback of \<^verbatim>\<open>parsed.questions.map((q, idx) => ...)\<close>. The question with index
  \<open>idx\<close> makes the call number \<open>idx\<close> of \<^verbatim>\<open>uuidv4\<close>.
\<close>

definition parseQuestion :: "externals \<Rightarrow> string list \<Rightarrow> nat \<times> json \<Rightarrow> exn + QuizQuestionData" where
  "parseQuestion ext techs iq =
     (let idx = fst iq; q = snd iq in
      case modelChoices q of
        Inl e \<Rightarrow> Inl e
      | Inr parsed \<Rightarrow>
     (case getProp q ''technology'' of
        Inl e \<Rightarrow> Inl e
      | Inr t \<Rightarrow>
     (case getProp q ''difficulty'' of
        Inl e \<Rightarrow> Inl e
      | Inr d \<Rightarrow>
     (case getProp q ''questionText'' of
        Inl e \<Rightarrow> Inl e
      | Inr qt \<Rightarrow>
     (case getProp q ''explanation'' of
        Inl e \<Rightarrow> Inl e
      | Inr ex \<Rightarrow>
          Inr \<lparr> question_id = uuidv4 ext idx,
                questionNumber = idx + 1,
                technology = questionTechnology t techs,
                difficulty = validateDifficulty d,
                questionText = orElse qt (JStr ''''),
                choices = repairChoices parsed,
                explanation = orElse ex (JStr '''') \<rparr>)))))"

text \<open>
  \<^verbatim>\<open>technologies[questionNumber % technologies.length] || "General"\<close>: with no technology
  the index is \<^verbatim>\<open>NaN\<close> and the element \<^verbatim>\<open>undefined\<close>.
\<close>

definition placeholderTech :: "nat \<Rightarrow> string list \<Rightarrow> string" where
  "placeholderTech n technologies =
     (if technologies = [] then ''General''
      else (let t = technologies ! (n mod length technologies)
            in if t \<noteq> [] then t else ''General''))"

definition createPlaceholderQuestion :: "externals \<Rightarrow> nat \<Rightarrow> string list \<Rightarrow> QuizQuestionData" where
  "createPlaceholderQuestion ext n technologies =
     (let tech = placeholderTech n technologies in
      \<lparr> question_id = uuidv4 ext (n - 1),
        questionNumber = n,
        technology = JStr tech,
        difficulty = (if n \<le> 2 then beginner else if n \<le> 4 then intermediate else advanced),
        questionText = JStr (tech @ '': question '' @ decimal n),
        choices =
          [\<lparr> choice_id = JStr ''A'', choice_text = JStr ''Choice A'', isCorrect = True \<rparr>,
           \<lparr> choice_id = JStr ''B'', choice_text = JStr ''Choice B'', isCorrect = False \<rparr>,
           \<lparr> choice_id = JStr ''C'', choice_text = JStr ''Choice C'', isCorrect = False \<rparr>,
           \<lparr> choice_id = JStr ''D'', choice_text = JStr ''Choice D'', isCorrect = False \<rparr>],
        explanation = JStr ''This question is an automatically generated placeholder.'' \<rparr>)"

text \<open>
  \<^verbatim>\<open>while (questions.length < 5) questions.push(createPlaceholderQuestion(questions.length + 1, ...))\<close>
\<close>

function padQuestions :: "externals \<Rightarrow> string list \<Rightarrow> QuizQuestionData list \<Rightarrow> QuizQuestionData list" where
  "padQuestions ext techs qs =
     (if length qs < 5
      then padQuestions ext techs (qs @ [createPlaceholderQuestion ext (length qs + 1) techs])
      else qs)"
  by pat_completeness auto
termination
  by (relation "measure (\<lambda>(ext, techs, qs). 5 - length qs)") auto

declare padQuestions.simps [simp del]

text \<open>
  The first part of \<^verbatim>\<open>parseResponse\<close>: the array \<^verbatim>\<open>questions\<close> as the
  \<^verbatim>\<open>map\<close> leaves it, before the padding.
\<close>

definition parseQuestions :: "externals \<Rightarrow> string \<Rightarrow> string list \<Rightarrow> exn + QuizQuestionData list" where
  "parseQuestions ext response techs =
     (case jsonMatch ext response of
        None \<Rightarrow> Inl (Error MSG_NO_JSON_BLOCK)
      | Some block \<Rightarrow>
     (case JSON_parse ext block of
        Inl e \<Rightarrow> Inl e
      | Inr parsed \<Rightarrow>
     (case getProp parsed ''questions'' of
        Inl e \<Rightarrow> Inl e
      | Inr qs \<Rightarrow>
     (case qs of
        Some (JArr raw) \<Rightarrow> mapM (parseQuestion ext techs) (enumerate 0 raw)
      | _ \<Rightarrow> Inl (Error MSG_NO_QUESTION_LIST)))))"

text \<open>
  The second part: the padding loop and the returned object. The calls of
  \<^verbatim>\<open>uuidv4\<close> before the last one are one for each question of the model and one for
  each placeholder.
\<close>

definition parseResponse :: "externals \<Rightarrow> string \<Rightarrow> string list \<Rightarrow> exn + QuizData" where
  "parseResponse ext response techs =
     (case parseQuestions ext response techs of
        Inl e \<Rightarrow> Inl e
      | Inr qs \<Rightarrow>
          Inr \<lparr> quiz_id = uuidv4 ext (max 5 (length qs)),
                questions = take 5 (padQuestions ext techs qs),
                targetTechnologies = techs,
                createdAt = nowISO ext \<rparr>)"

text \<open>A model response for the examples: two questions, one with no choice, one with two correct ones.\<close>

definition example_raw_choices :: "json list" where
  "example_raw_choices =
     [JObj [(''id'', JStr ''A''), (''isCorrect'', JBool False)],
      JObj [(''id'', JStr ''B''), (''isCorrect'', JBool True)],
      JObj [(''id'', JStr ''C''), (''isCorrect'', JBool True)]]"

definition example_raw_questions :: "json list" where
  "example_raw_questions =
     [JObj [(''questionText'', JStr ''q1''), (''choices'', JArr [])],
      JObj [(''choices'', JArr example_raw_choices)]]"

definition example_parsed :: json where
  "example_parsed = JObj [(''questions'', JArr example_raw_questions)]"

definition example_ext :: externals where
  "example_ext =
     \<lparr> jsonMatch = (\<lambda>r. Some r),
       JSON_parse = (\<lambda>s. Inr example_parsed),
       uuidv4 = (\<lambda>k. ''id-'' @ decimal k),
       nowISO = 0 \<rparr>"

text \<open>
  The index of the choice that is correct after the repair: the first correct one, the first
  choice when none is.
\<close>

definition firstCorrectIndex :: "QuizChoiceData list \<Rightarrow> nat" where
  "firstCorrectIndex cs =
     (if filter isCorrect cs = [] then 0 else length (takeWhile (\<lambda>c. \<not> isCorrect c) cs))"

definition example_choices :: "QuizChoiceData list" where
  "example_choices =
     [\<lparr> choice_id = JStr ''A'', choice_text = JStr [], isCorrect = False \<rparr>,
      \<lparr> choice_id = JStr ''B'', choice_text = JStr [], isCorrect = True \<rparr>,
      \<lparr> choice_id = JStr ''C'', choice_text = JStr [], isCorrect = True \<rparr>]"


text \<open>
  How the specification words the repair, on the flags the model gave
  (\<^verbatim>\<open>c.isCorrect === true\<close> is \<open>markedCorrect\<close>): a question without choices has none; with
  no flag set the first choice is forced correct; otherwise only the first flag set is kept.
\<close>

definition markedCorrect :: "json \<Rightarrow> bool" where
  "markedCorrect c = (getProp c ''isCorrect'' = Inr (Some (JBool True)))"

definition repairedFlags :: "bool list \<Rightarrow> bool list" where
  "repairedFlags flags =
     (if flags = [] then []
      else (replicate (length flags) False)
             [(if True \<in> set flags then length (takeWhile Not flags) else 0) := True])"

section \<open>QuizGenerator.ts: the generator\<close>



































section \<open>QuizGenerator.ts: QuizManager\<close>

text \<open>
  Modelled from the spec: the messages \<^verbatim>\<open>Quiz\<close>, \<^verbatim>\<open>QuizQuestion\<close> and
  \<^verbatim>\<open>QuizChoice\<close> of \<^verbatim>\<open>shared/proto/cline/learning\<close> are not among the sources. Their
  fields are those \<^verbatim>\<open>toProto\<close> fills, and \<^verbatim>\<open>create\<close> builds the message with the
  values it is given.
\<close>

record QuizChoice =
  proto_choice_id :: json
  proto_choice_text :: json
  proto_isCorrect :: bool

record QuizQuestion =
  proto_question_id :: string
  proto_questionNumber :: nat
  proto_technology :: json
  proto_difficulty :: QuizDifficulty
  proto_questionText :: json
  proto_choices :: "QuizChoice list"
  proto_explanation :: json

record Quiz =
  proto_quiz_id :: string
  proto_questions :: "QuizQuestion list"
  proto_targetTechnologies :: "string list"
  proto_createdAt :: timestamp




text \<open>
  The stored quiz, \<^verbatim>\<open>quiz.json\<close>: \<open>None\<close> when the file is missing or cannot be read
  or parsed.
\<close>

definition loadQuiz :: "QuizData option \<Rightarrow> bool \<times> QuizData option" where
  "loadQuiz quizFile = (case quizFile of None \<Rightarrow> (False, None) | Some quiz \<Rightarrow> (True, Some quiz))"

record AnswerCheck =
  answer_isCorrect :: bool
  correctChoiceId :: json
  answer_explanation :: json

definition checkAnswer :: "QuizData option \<Rightarrow> string \<Rightarrow> string \<Rightarrow> string \<Rightarrow> exn + AnswerCheck" where
  "checkAnswer quizFile quizId questionId selectedChoiceId =
     (case loadQuiz quizFile of
        (ex, None) \<Rightarrow> Inl (Error ''Quiz not found'')
      | (ex, Some quiz) \<Rightarrow>
          if \<not> ex \<or> quiz_id quiz \<noteq> quizId then Inl (Error ''Quiz not found'')
          else
            (case find (\<lambda>q. question_id q = questionId) (questions quiz) of
               None \<Rightarrow> Inl (Error ''Question not found'')
             | Some question \<Rightarrow>
                 (let correctChoice = find isCorrect (choices question) in
                  Inr \<lparr> answer_isCorrect =
                          (case correctChoice of
                             None \<Rightarrow> False
                           | Some c \<Rightarrow> choice_id c = JStr selectedChoiceId),
                        correctChoiceId = orElse (map_option choice_id correctChoice) (JStr []),
                        answer_explanation = explanation question \<rparr>)))"


definition example_quiz :: QuizData where
  "example_quiz =
     \<lparr> quiz_id = ''quiz-1'',
       questions =
         [\<lparr> question_id = ''q-1'', questionNumber = 1, technology = JStr ''React'',
            difficulty = beginner, questionText = JStr ''What is JSX?'',
            choices =
              [\<lparr> choice_id = JStr ''A'', choice_text = JStr ''a'', isCorrect = False \<rparr>,
               \<lparr> choice_id = JStr ''B'', choice_text = JStr ''b'', isCorrect = True \<rparr>],
            explanation = JStr ''B, because ...'' \<rparr>],
       targetTechnologies = [''React''],
       createdAt = 0 \<rparr>"



section \<open>CurriculumGenerator.ts: CurriculumManager\<close>

datatype TaskStatusType = not_started | in_progress | completed | skipped

text \<open>
  The fields of a task, of a chapter and of the curriculum that
  \<^verbatim>\<open>CurriculumGenerator.parseResponse\<close> takes from the model (\<^verbatim>\<open>t.estimatedTime || ...\<close>
  and the like) are stored unchecked, so they are JSON values; the ids, the status, the order
  and the timestamps are set by the code.
\<close>

record TaskData =
  task_id :: string
  task_title :: json
  task_description :: json
  status :: TaskStatusType
  targetFiles :: json
  estimatedTime :: json
  prerequisites :: json

record ChapterData =
  chapter_id :: string
  chapter_title :: json
  chapter_description :: json
  tasks :: "TaskData list"
  chapter_order :: nat

record CurriculumData =
  curriculum_id :: string
  curriculum_title :: json
  curriculum_description :: json
  chapters :: "ChapterData list"
  curriculum_createdAt :: timestamp
  updatedAt :: timestamp
  projectSummary :: string

text \<open>
  A file of the state directory is its parsed content, \<open>None\<close> when the file is missing
  or cannot be read or parsed: the \<^verbatim>\<open>load\<close> functions catch those failures and answer
  \<^verbatim>\<open>{ exists: false }\<close>. A write (\<^verbatim>\<open>fs.mkdir\<close> and \<^verbatim>\<open>fs.writeFile\<close>) succeeds or
  throws; \<open>writeError\<close> is the exception it throws, if it does, and a write that throws
  leaves the file as it was.
\<close>

definition loadCurriculum :: "CurriculumData option \<Rightarrow> bool \<times> CurriculumData option" where
  "loadCurriculum file = (case file of None \<Rightarrow> (False, None) | Some c \<Rightarrow> (True, Some c))"

definition saveCurriculum ::
  "exn option \<Rightarrow> CurriculumData option \<Rightarrow> CurriculumData \<Rightarrow> (exn + unit) \<times> CurriculumData option" where
  "saveCurriculum writeError file c =
     (case writeError of Some e \<Rightarrow> (Inl e, file) | None \<Rightarrow> (Inr (), Some c))"

text \<open>\<^verbatim>\<open>xs.findIndex(p)\<close>, the place of the element \<^verbatim>\<open>xs.find(p)\<close> returns.\<close>

fun findIndex :: "('a \<Rightarrow> bool) \<Rightarrow> 'a list \<Rightarrow> nat option" where
  "findIndex p [] = None"
| "findIndex p (x # xs) = (if p x then Some 0 else map_option Suc (findIndex p xs))"

text \<open>
  The loop \<^verbatim>\<open>for (const chapter of curriculum.chapters)\<close> of \<^verbatim>\<open>updateTaskStatus\<close>: the
  chapters with the status of the first task found set, \<open>None\<close> when no chapter has the task.
\<close>

fun setTaskStatus :: "string \<Rightarrow> TaskStatusType \<Rightarrow> ChapterData list \<Rightarrow> ChapterData list option" where
  "setTaskStatus taskId st [] = None"
| "setTaskStatus taskId st (chapter # rest) =
     (case findIndex (\<lambda>t. task_id t = taskId) (tasks chapter) of
        Some i \<Rightarrow>
          Some (chapter\<lparr> tasks := (tasks chapter)[i := (tasks chapter ! i)\<lparr> status := st \<rparr>] \<rparr> # rest)
      | None \<Rightarrow> map_option ((#) chapter) (setTaskStatus taskId st rest))"

text \<open>
  \<^verbatim>\<open>updateTaskStatus\<close> at the time \<open>t\<close>: what it returns (\<open>Inr None\<close> is \<^verbatim>\<open>null\<close>), and
  the curriculum file afterwards.
\<close>

definition updateTaskStatus ::
  "exn option \<Rightarrow> timestamp \<Rightarrow> CurriculumData option \<Rightarrow> string \<Rightarrow> TaskStatusType
     \<Rightarrow> (exn + CurriculumData option) \<times> CurriculumData option" where
  "updateTaskStatus writeError t file taskId st =
     (case loadCurriculum file of
        (ex, None) \<Rightarrow> (Inr None, file)
      | (ex, Some curriculum) \<Rightarrow>
          if \<not> ex then (Inr None, file)
          else
            (case setTaskStatus taskId st (chapters curriculum) of
               None \<Rightarrow> (Inr None, file)
             | Some chs \<Rightarrow>
                 (let updated = curriculum\<lparr> chapters := chs, updatedAt := t \<rparr> in
                  case saveCurriculum writeError file updated of
                    (Inl e, file') \<Rightarrow> (Inl e, file')
                  | (Inr u, file') \<Rightarrow> (Inr (Some updated), file'))))"

text \<open>All the tasks of a curriculum, \<^verbatim>\<open>curriculum.chapters.flatMap((ch) => ch.tasks)\<close>.\<close>

definition allTasks :: "CurriculumData \<Rightarrow> TaskData list" where
  "allTasks c = concat (map tasks (chapters c))"

section \<open>LearningStatisticsManager.ts: LearningStatisticsManager\<close>

text \<open>
  A learning date \<^verbatim>\<open>YYYY-MM-DD\<close> is the number of its day, counted from the first of
  January 1970: \<^verbatim>\<open>toISOString().split("T")[0]\<close> of an instant is the day the instant lies
  in (in UTC), \<^verbatim>\<open>new Date(date).getTime()\<close> is the first millisecond of the day, and the
  order of the strings, which \<^verbatim>\<open>sort()\<close> uses, is the order of the days (for years of
  four digits).
\<close>

type_synonym isodate = int

definition MS_PER_DAY :: int where
  "MS_PER_DAY = 86400000"

definition dateOf :: "timestamp \<Rightarrow> isodate" where
  "dateOf t = t div MS_PER_DAY"

definition getTime :: "isodate \<Rightarrow> timestamp" where
  "getTime d = d * MS_PER_DAY"

text \<open>
  \<^verbatim>\<open>Math.round\<close>: the nearest integer, a half rounded up. The quotients it is applied to
  are taken exactly.
\<close>

definition Math_round :: "rat \<Rightarrow> int" where
  "Math_round x = \<lfloor>x + 1 / 2\<rfloor>"

record TaskStatistic =
  taskId :: string
  startedAt :: "timestamp option"
  completedAt :: "timestamp option"
  timeSpentMinutes :: int

record LearningStatisticsData =
  curriculumId :: string
  totalTasks :: nat
  completedTasks :: nat
  inProgressTasks :: nat
  skippedTasks :: nat
  notStartedTasks :: nat
  estimatedTotalMinutes :: nat
  actualTimeSpentMinutes :: int
  taskStats :: "TaskStatistic list"
  lastActivityTime :: timestamp
  completionPercentage :: rat
  streakDays :: nat
  learningDates :: "isodate list"

definition loadStatistics :: "LearningStatisticsData option \<Rightarrow> bool \<times> LearningStatisticsData option" where
  "loadStatistics file = (case file of None \<Rightarrow> (False, None) | Some s \<Rightarrow> (True, Some s))"

definition saveStatistics ::
  "exn option \<Rightarrow> LearningStatisticsData option \<Rightarrow> LearningStatisticsData
     \<Rightarrow> (exn + unit) \<times> LearningStatisticsData option" where
  "saveStatistics writeError file s =
     (case writeError of Some e \<Rightarrow> (Inl e, file) | None \<Rightarrow> (Inr (), Some s))"

text \<open>
  \<^verbatim>\<open>task.estimatedTime.match(/(\d+)/)\<close> and \<^verbatim>\<open>parseInt(match[1], 10)\<close>: the first run of
  digits of the text, 30 when it has no digit. A value that is no string has no method
  \<^verbatim>\<open>match\<close>, and the call throws.
\<close>

definition isDigit :: "char \<Rightarrow> bool" where
  "isDigit c = (c \<in> set ''0123456789'')"

definition estimatedMinutes :: "json \<Rightarrow> exn + nat" where
  "estimatedMinutes v =
     (case v of
        JStr s \<Rightarrow>
          (let ds = takeWhile isDigit (dropWhile (\<lambda>c. \<not> isDigit c) s) in
           Inr (if ds = [] then 30 else foldl (\<lambda>n c. 10 * n + (of_char c - 48)) 0 ds))
      | _ \<Rightarrow> Inl (TypeError ''task.estimatedTime.match is not a function''))"

text \<open>The \<^verbatim>\<open>reduce\<close> over the tasks; the first exception ends it.\<close>

fun sumEstimates :: "nat \<Rightarrow> TaskData list \<Rightarrow> exn + nat" where
  "sumEstimates acc [] = Inr acc"
| "sumEstimates acc (task # rest) =
     (case estimatedMinutes (estimatedTime task) of
        Inl e \<Rightarrow> Inl e
      | Inr m \<Rightarrow> sumEstimates (acc + m) rest)"

definition calculateFromCurriculum :: "CurriculumData \<Rightarrow> exn + LearningStatisticsData" where
  "calculateFromCurriculum c =
     (let ts = allTasks c;
          done = length (filter (\<lambda>t. status t = completed) ts);
          total = length ts
      in case sumEstimates 0 ts of
           Inl e \<Rightarrow> Inl e
         | Inr estimated \<Rightarrow>
             Inr \<lparr> curriculumId = curriculum_id c,
                   totalTasks = total,
                   completedTasks = done,
                   inProgressTasks = length (filter (\<lambda>t. status t = in_progress) ts),
                   skippedTasks = length (filter (\<lambda>t. status t = skipped) ts),
                   notStartedTasks = length (filter (\<lambda>t. status t = not_started) ts),
                   estimatedTotalMinutes = estimated,
                   actualTimeSpentMinutes = 0,
                   taskStats = [],
                   lastActivityTime = updatedAt c,
                   completionPercentage = (if total > 0 then of_nat done / of_nat total * 100 else 0),
                   streakDays = 0,
                   learningDates = [] \<rparr>)"

text \<open>
  The loop of \<^verbatim>\<open>calculateStreak\<close> over the adjacent pairs of the sorted dates, with its
  counter.
\<close>

fun streakLoop :: "nat \<Rightarrow> isodate list \<Rightarrow> nat" where
  "streakLoop streak (currentDate # prevDate # rest) =
     (let diffDays = Math_round (of_int (getTime currentDate - getTime prevDate) / of_int MS_PER_DAY)
      in if diffDays = 1 then streakLoop (streak + 1) (prevDate # rest) else streak)"
| "streakLoop streak ds = streak"

text \<open>\<^verbatim>\<open>calculateStreak\<close>, called at the instant \<open>clock\<close>.\<close>

definition calculateStreak :: "timestamp \<Rightarrow> isodate list \<Rightarrow> nat" where
  "calculateStreak clock dates =
     (if dates = [] then 0
      else
        (let sortedDates = rev (sort dates);
             today = dateOf clock;
             yesterday = dateOf (clock - 86400000)
         in if hd sortedDates \<noteq> today \<and> hd sortedDates \<noteq> yesterday then 0
            else streakLoop 1 sortedDates))"

text \<open>
  The timing part of \<^verbatim>\<open>updateTaskStatistics\<close>: the statistic of the task after the change
  of status, and the minutes to add to the total of the document.
\<close>

definition updateTiming ::
  "timestamp \<Rightarrow> TaskStatusType \<Rightarrow> TaskStatusType \<Rightarrow> TaskStatistic \<Rightarrow> TaskStatistic \<times> int" where
  "updateTiming t oldStatus newStatus taskStat =
     (if newStatus = in_progress \<and> oldStatus \<noteq> in_progress then
        (taskStat\<lparr> startedAt := Some t \<rparr>, 0)
      else if newStatus = completed \<and> oldStatus = in_progress then
        (case startedAt taskStat of
           Some startTime \<Rightarrow>
             (let minutesSpent = Math_round (of_int (t - startTime) / 60000) in
              (taskStat\<lparr> completedAt := Some t,
                         timeSpentMinutes := timeSpentMinutes taskStat + minutesSpent \<rparr>,
               minutesSpent))
         | None \<Rightarrow> (taskStat\<lparr> completedAt := Some t \<rparr>, 0))
      else (taskStat, 0))"

text \<open>
  \<^verbatim>\<open>updateTaskStatistics\<close>, which reads the clock at \<open>t\<close> and, inside
  \<^verbatim>\<open>calculateStreak\<close>, at \<open>clock\<close>: what it returns, and the statistics file afterwards.
  An exception of \<^verbatim>\<open>calculateFromCurriculum\<close> leaves the function before anything is
  stamped or saved.
\<close>

definition updateTaskStatistics ::
  "exn option \<Rightarrow> timestamp \<Rightarrow> timestamp \<Rightarrow> LearningStatisticsData option \<Rightarrow> string \<Rightarrow> string
     \<Rightarrow> TaskStatusType \<Rightarrow> TaskStatusType \<Rightarrow> CurriculumData
     \<Rightarrow> (exn + LearningStatisticsData) \<times> LearningStatisticsData option" where
  "updateTaskStatistics writeError t clock file cid tid oldStatus newStatus curriculum =
     (case calculateFromCurriculum curriculum of
        Inl e \<Rightarrow> (Inl e, file)
      | Inr fresh \<Rightarrow>
     (let merged =
            (case loadStatistics file of
               (True, Some statistics) \<Rightarrow>
                 fresh\<lparr> taskStats := taskStats statistics,
                        actualTimeSpentMinutes := actualTimeSpentMinutes statistics,
                        learningDates := learningDates statistics \<rparr>
             | _ \<Rightarrow> fresh);
          today = dateOf t;
          (i, stats) =
            (case findIndex (\<lambda>ts. taskId ts = tid) (taskStats merged) of
               Some i \<Rightarrow> (i, taskStats merged)
             | None \<Rightarrow>
                 (length (taskStats merged),
                  taskStats merged @
                    [\<lparr> taskId = tid, startedAt = None, completedAt = None, timeSpentMinutes = 0 \<rparr>]));
          (taskStat, minutesSpent) = updateTiming t oldStatus newStatus (stats ! i);
          dates =
            (if today \<in> set (learningDates merged) then learningDates merged
             else sort (learningDates merged @ [today]));
          freshStats =
            merged\<lparr> taskStats := stats[i := taskStat],
                    actualTimeSpentMinutes := actualTimeSpentMinutes merged + minutesSpent,
                    learningDates := dates,
                    streakDays := calculateStreak clock dates,
                    lastActivityTime := t \<rparr>
      in case saveStatistics writeError file freshStats of
           (Inl e, file') \<Rightarrow> (Inl e, file')
         | (Inr u, file') \<Rightarrow> (Inr freshStats, file')))"

section \<open>updateTaskProgress.ts: the controller\<close>

text \<open>
  Modelled from the spec: the enumeration \<^verbatim>\<open>TaskStatus\<close> of
  \<^verbatim>\<open>shared/proto/cline/learning\<close> is not among the sources; its members are those the
  table \<^verbatim>\<open>statusMap\<close> of the controller lists.
\<close>

datatype TaskStatus =
    TASK_STATUS_NOT_STARTED
  | TASK_STATUS_IN_PROGRESS
  | TASK_STATUS_COMPLETED
  | TASK_STATUS_SKIPPED
  | UNRECOGNIZED

fun statusMap :: "TaskStatus \<Rightarrow> TaskStatusType" where
  "statusMap TASK_STATUS_NOT_STARTED = not_started"
| "statusMap TASK_STATUS_IN_PROGRESS = in_progress"
| "statusMap TASK_STATUS_COMPLETED = completed"
| "statusMap TASK_STATUS_SKIPPED = skipped"
| "statusMap UNRECOGNIZED = not_started"

text \<open>
  The loop of the controller that reads the old status: the status of the first task with
  the id in the first chapter that has one.
\<close>

fun findTaskStatus :: "string \<Rightarrow> ChapterData list \<Rightarrow> TaskStatusType option" where
  "findTaskStatus tid [] = None"
| "findTaskStatus tid (chapter # rest) =
     (case find (\<lambda>t. task_id t = tid) (tasks chapter) of
        Some task \<Rightarrow> Some (status task)
      | None \<Rightarrow> findTaskStatus tid rest)"

record workspace =
  curriculumFile :: "CurriculumData option"
  statsFile :: "LearningStatisticsData option"

text \<open>
  The outside of one call of \<^verbatim>\<open>updateTaskProgress\<close>: the path \<^verbatim>\<open>getCwd()\<close> gives (empty
  when there is none), the instants at which \<^verbatim>\<open>updateTaskStatus\<close>,
  \<^verbatim>\<open>updateTaskStatistics\<close> and \<^verbatim>\<open>calculateStreak\<close> read the clock, and the exceptions
  the writes of the two files throw, if they do.
\<close>

record call =
  workspacePath :: string
  clockStatus :: timestamp
  clockStatistics :: timestamp
  clockStreak :: timestamp
  curriculumWriteError :: "exn option"
  statsWriteError :: "exn option"

text \<open>
  \<^verbatim>\<open>updateTaskProgress\<close>: the field \<^verbatim>\<open>success\<close> of the response, and the files
  afterwards. (The other fields of the response are the projections of the curriculum and
  of the statistics the two managers returned.)
\<close>

definition updateTaskProgress :: "call \<Rightarrow> workspace \<Rightarrow> string \<Rightarrow> TaskStatus \<Rightarrow> bool \<times> workspace" where
  "updateTaskProgress cl ws reqTaskId reqStatus =
     (if workspacePath cl = [] then (False, ws)
      else if reqTaskId = [] then (False, ws)
      else
        (let oldStatus =
               (case snd (loadCurriculum (curriculumFile ws)) of
                  None \<Rightarrow> not_started
                | Some oldCurriculum \<Rightarrow>
                    (case findTaskStatus reqTaskId (chapters oldCurriculum) of
                       None \<Rightarrow> not_started
                     | Some s \<Rightarrow> s));
             newStatus = statusMap reqStatus
         in case updateTaskStatus (curriculumWriteError cl) (clockStatus cl)
                   (curriculumFile ws) reqTaskId newStatus of
              (Inl e, file') \<Rightarrow> (False, ws\<lparr> curriculumFile := file' \<rparr>)
            | (Inr None, file') \<Rightarrow> (False, ws\<lparr> curriculumFile := file' \<rparr>)
            | (Inr (Some updatedCurriculum), file') \<Rightarrow>
                (case updateTaskStatistics (statsWriteError cl) (clockStatistics cl) (clockStreak cl)
                        (statsFile ws) (curriculum_id updatedCurriculum) reqTaskId
                        oldStatus newStatus updatedCurriculum of
                   (Inl e, sfile') \<Rightarrow> (False, \<lparr> curriculumFile = file', statsFile = sfile' \<rparr>)
                 | (Inr statistics, sfile') \<Rightarrow>
                     (True, \<lparr> curriculumFile = file', statsFile = sfile' \<rparr>))))"

text \<open>
  The accumulated time fields of a statistics file: the minutes of a task (none when the
  file has no entry for it) and the minutes of the document.
\<close>

definition taskMinutes :: "string \<Rightarrow> LearningStatisticsData option \<Rightarrow> int" where
  "taskMinutes tid file =
     (case file of
        None \<Rightarrow> 0
      | Some s \<Rightarrow>
          (case find (\<lambda>ts. taskId ts = tid) (taskStats s) of
             None \<Rightarrow> 0
           | Some ts \<Rightarrow> timeSpentMinutes ts))"

definition documentMinutes :: "LearningStatisticsData option \<Rightarrow> int" where
  "documentMinutes file = (case file of None \<Rightarrow> 0 | Some s \<Rightarrow> actualTimeSpentMinutes s)"

text \<open>
  The statistic \<^verbatim>\<open>updateTaskStatistics\<close> finds for a task in a statistics file, or
  creates.
\<close>

definition taskStatOf :: "string \<Rightarrow> LearningStatisticsData option \<Rightarrow> TaskStatistic" where
  "taskStatOf tid file =
     (case file of
        None \<Rightarrow> \<lparr> taskId = tid, startedAt = None, completedAt = None, timeSpentMinutes = 0 \<rparr>
      | Some s \<Rightarrow>
          (case find (\<lambda>ts. taskId ts = tid) (taskStats s) of
             None \<Rightarrow> \<lparr> taskId = tid, startedAt = None, completedAt = None, timeSpentMinutes = 0 \<rparr>
           | Some ts \<Rightarrow> ts))"

text \<open>
  The streak as the specification words it: nothing for an empty list; nothing when the most
  recent date is neither today nor yesterday; otherwise one, and one more for each adjacent
  pair of the dates in descending order, read up to the first gap of more than a day, whose
  dates are a day apart.
\<close>

definition streakSpec :: "isodate \<Rightarrow> isodate list \<Rightarrow> nat" where
  "streakSpec today dates =
     (let sortedDates = rev (sort dates);
          pairs = zip sortedDates (tl sortedDates);
          scanned = takeWhile (\<lambda>(d, p). \<not> d - p > 1) pairs
      in if dates = [] then 0
         else if hd sortedDates \<noteq> today \<and> hd sortedDates \<noteq> today - 1 then 0
         else 1 + length (filter (\<lambda>(d, p). d - p = 1) scanned))"

text \<open>A curriculum and a sequence of calls for the examples.\<close>

definition example_task :: "string \<Rightarrow> TaskStatusType \<Rightarrow> json \<Rightarrow> TaskData" where
  "example_task tid st estimate =
     \<lparr> task_id = tid, task_title = JStr ''Read the entry point'', task_description = JStr [],
       status = st, targetFiles = JArr [JStr ''src/index.ts''], estimatedTime = estimate,
       prerequisites = JArr [] \<rparr>"

definition example_curriculum :: CurriculumData where
  "example_curriculum =
     \<lparr> curriculum_id = ''cur-1'', curriculum_title = JStr ''Onboarding'',
       curriculum_description = JStr [],
       chapters =
         [\<lparr> chapter_id = ''ch-1'', chapter_title = JStr ''Start'', chapter_description = JStr [],
            tasks = [example_task ''t1'' not_started (JStr ''30 min''),
                     example_task ''t2'' in_progress (JStr ''about an hour'')],
            chapter_order = 0 \<rparr>],
       curriculum_createdAt = 0, updatedAt = 0, projectSummary = [] \<rparr>"

text \<open>
  The callback of \<^verbatim>\<open>(ch.tasks || []).map((t: any) => ...)\<close> in
  \<^verbatim>\<open>CurriculumGenerator.parseResponse\<close>, with the id \<^verbatim>\<open>uuidv4()\<close> gives: the values of
  the model are kept as they are when they are truthy.
\<close>

definition parseTask :: "string \<Rightarrow> json \<Rightarrow> exn + TaskData" where
  "parseTask uuid t =
     (case getProp t ''title'' of
        Inl e \<Rightarrow> Inl e
      | Inr ti \<Rightarrow>
     (case getProp t ''description'' of
        Inl e \<Rightarrow> Inl e
      | Inr de \<Rightarrow>
     (case getProp t ''targetFiles'' of
        Inl e \<Rightarrow> Inl e
      | Inr tf \<Rightarrow>
     (case getProp t ''estimatedTime'' of
        Inl e \<Rightarrow> Inl e
      | Inr et \<Rightarrow>
     (case getProp t ''prerequisites'' of
        Inl e \<Rightarrow> Inl e
      | Inr pr \<Rightarrow>
          Inr \<lparr> task_id = uuid,
                task_title = orElse ti (JStr ''Task''),
                task_description = orElse de (JStr []),
                status = not_started,
                targetFiles = orElse tf (JArr []),
                estimatedTime = orElse et (JStr ''30 min''),
                prerequisites = orElse pr (JArr []) \<rparr>)))))"

text \<open>
  A task as the model may answer it, with a number for the estimate, and the example
  curriculum with that task as the generator stores it, the task set \<open>in_progress\<close>.
\<close>

definition example_model_task :: json where
  "example_model_task =
     JObj [(''title'', JStr ''Read the entry point''),
           (''targetFiles'', JArr [JStr ''src/index.ts'']),
           (''estimatedTime'', JNum 30)]"

definition example_numeric_curriculum :: CurriculumData where
  "example_numeric_curriculum =
     example_curriculum\<lparr> chapters :=
       [\<lparr> chapter_id = ''ch-1'', chapter_title = JStr ''Start'', chapter_description = JStr [],
          tasks = [(projr (parseTask ''t1'' example_model_task))\<lparr>status := in_progress\<rparr>,
                   example_task ''t2'' in_progress (JStr ''about an hour'')],
          chapter_order = 0 \<rparr>] \<rparr>"

definition stats_started :: "LearningStatisticsData option" where
  "stats_started =
     snd (updateTaskStatistics None 1000000 1000000 None ''cur-1'' ''t1''
            not_started in_progress example_curriculum)"

definition stats_completed :: "LearningStatisticsData option" where
  "stats_completed =
     snd (updateTaskStatistics None (1000000 + 17 * 60000) (1000000 + 17 * 60000) stats_started
            ''cur-1'' ''t1'' in_progress completed example_curriculum)"

definition stats_restarted :: "LearningStatisticsData option" where
  "stats_restarted =
     snd (updateTaskStatistics None 5000000 5000000 stats_completed
            ''cur-1'' ''t1'' completed in_progress example_curriculum)"

definition stats_recompleted :: "LearningStatisticsData option" where
  "stats_recompleted =
     snd (updateTaskStatistics None (5000000 + 5 * 60000) (5000000 + 5 * 60000) stats_restarted
            ''cur-1'' ''t1'' in_progress completed example_curriculum)"

definition example_call :: call where
  "example_call =
     \<lparr> workspacePath = ''/home/dev/project'', clockStatus = 7000000, clockStatistics = 7000001,
       clockStreak = 7000002, curriculumWriteError = None, statsWriteError = None \<rparr>"

definition example_workspace :: workspace where
  "example_workspace = \<lparr> curriculumFile = Some example_curriculum, statsFile = stats_completed \<rparr>"

section \<open>LearningStatisticsManager.ts: the structure walk of ProjectAnalyzer\<close>

text \<open>
  The directory tree on disk, as \<^verbatim>\<open>fs.readdir(dirPath, { withFileTypes: true })\<close> shows it:
  an entry has a name and is a directory (\<^verbatim>\<open>entry.isDirectory()\<close>) or not; a directory has
  its entries, or \<open>None\<close> when reading it throws.
\<close>

datatype fsentry = FsFile string | FsDir string "fsentry list option"

fun entryName :: "fsentry \<Rightarrow> string" where
  "entryName (FsFile n) = n"
| "entryName (FsDir n l) = n"

fun isDirectory :: "fsentry \<Rightarrow> bool" where
  "isDirectory (FsFile n) = False"
| "isDirectory (FsDir n l) = True"

datatype NodeType = type_file | type_directory

datatype DirectoryNode =
  DirectoryNode (node_name: string) (node_path: string) (node_type: NodeType)
    (children: "DirectoryNode list option")

definition EXCLUDED_DIRS :: "string list" where
  "EXCLUDED_DIRS =
     [''node_modules'', ''.git'', ''dist'', ''build'', ''.next'', ''__pycache__'', ''.venv'',
      ''venv'', ''.idea'', ''.vscode'', ''coverage'', ''.nyc_output'', ''.onboarding'']"

definition MAX_DEPTH :: nat where
  "MAX_DEPTH = 4"

definition MAX_FILES_PER_DIR :: nat where
  "MAX_FILES_PER_DIR = 50"

definition MAX_TOTAL_FILES :: nat where
  "MAX_TOTAL_FILES = 500"

definition startsWith :: "string \<Rightarrow> string \<Rightarrow> bool" where
  "startsWith s p = (take (length p) s = p)"

text \<open>\<^verbatim>\<open>path.basename\<close> and \<^verbatim>\<open>path.join\<close> of two parts, on paths that are already normal.\<close>

definition basename :: "string \<Rightarrow> string" where
  "basename p =
     rev (takeWhile (\<lambda>c. c \<noteq> CHR ''/'') (dropWhile (\<lambda>c. c = CHR ''/'') (rev p)))"

definition joinPath :: "string \<Rightarrow> string \<Rightarrow> string" where
  "joinPath d n = d @ ''/'' @ n"

text \<open>
  The comparison function given to \<^verbatim>\<open>entries.sort\<close>, over \<^verbatim>\<open>localeCompare\<close>, which is
  the parameter \<open>lc\<close>; and the sort, which is stable.
\<close>

definition compareEntries :: "(string \<Rightarrow> string \<Rightarrow> int) \<Rightarrow> fsentry \<Rightarrow> fsentry \<Rightarrow> int" where
  "compareEntries lc a b =
     (if isDirectory a \<and> \<not> isDirectory b then - 1
      else if \<not> isDirectory a \<and> isDirectory b then 1
      else lc (entryName a) (entryName b))"

fun insertEntry :: "(string \<Rightarrow> string \<Rightarrow> int) \<Rightarrow> fsentry \<Rightarrow> fsentry list \<Rightarrow> fsentry list" where
  "insertEntry lc x [] = [x]"
| "insertEntry lc x (y # ys) =
     (if compareEntries lc x y \<le> 0 then x # y # ys else y # insertEntry lc x ys)"

definition sortEntries :: "(string \<Rightarrow> string \<Rightarrow> int) \<Rightarrow> fsentry list \<Rightarrow> fsentry list" where
  "sortEntries lc es = foldr (insertEntry lc) es []"

text \<open>The two tests of the loop that skip an entry.\<close>

definition skipped_entry :: "fsentry \<Rightarrow> bool" where
  "skipped_entry e =
     (entryName e \<in> set EXCLUDED_DIRS \<or>
      (startsWith (entryName e) ''.'' \<and> \<not> startsWith (entryName e) ''.env''))"

lemma size_insertEntry [simp]:
  "size_list size (insertEntry lc x ys) = Suc (size x + size_list size ys)"
  by (induction ys) auto

lemma size_sortEntries [simp]: "size_list size (sortEntries lc es) = size_list size es"
  by (induction es) (auto simp: sortEntries_def)

text \<open>
  \<^verbatim>\<open>analyzeStructure\<close> on the directory at \<open>dirPath\<close> whose entries are \<open>listing\<close>, with the
  counter \<^verbatim>\<open>this.totalFiles\<close> passed in and out; and its loop \<open>walkEntries\<close> over the sorted
  entries, with \<^verbatim>\<open>fileCount\<close>, the counter and the children pushed so far.
\<close>

function analyzeStructure ::
    "(string \<Rightarrow> string \<Rightarrow> int) \<Rightarrow> string \<Rightarrow> fsentry list option \<Rightarrow> nat \<Rightarrow> nat
       \<Rightarrow> DirectoryNode \<times> nat"
  and walkEntries ::
    "(string \<Rightarrow> string \<Rightarrow> int) \<Rightarrow> string \<Rightarrow> nat \<Rightarrow> fsentry list \<Rightarrow> nat \<Rightarrow> nat
       \<Rightarrow> DirectoryNode list \<Rightarrow> DirectoryNode list \<times> nat"
where
  "analyzeStructure lc dirPath listing depth totalFiles =
     (let name = (if basename dirPath \<noteq> [] then basename dirPath else dirPath) in
      if depth \<ge> MAX_DEPTH \<or> totalFiles \<ge> MAX_TOTAL_FILES
      then (DirectoryNode name dirPath type_directory (Some []), totalFiles)
      else
        (case listing of
           None \<Rightarrow> (DirectoryNode name dirPath type_directory (Some []), totalFiles)
         | Some entries \<Rightarrow>
             (let (cs, total') =
                    walkEntries lc dirPath depth (sortEntries lc entries) 0 totalFiles []
              in (DirectoryNode name dirPath type_directory (Some cs), total'))))"
| "walkEntries lc dirPath depth [] fileCount totalFiles acc = (acc, totalFiles)"
| "walkEntries lc dirPath depth (entry # rest) fileCount totalFiles acc =
     (if skipped_entry entry then walkEntries lc dirPath depth rest fileCount totalFiles acc
      else if fileCount \<ge> MAX_FILES_PER_DIR then (acc, totalFiles)
      else if totalFiles \<ge> MAX_TOTAL_FILES then (acc, totalFiles)
      else
        (let entryPath = joinPath dirPath (entryName entry) in
         case entry of
           FsDir n listing \<Rightarrow>
             (let (child, total') = analyzeStructure lc entryPath listing (depth + 1) totalFiles
              in walkEntries lc dirPath depth rest fileCount total' (acc @ [child]))
         | FsFile n \<Rightarrow>
             walkEntries lc dirPath depth rest (fileCount + 1) (totalFiles + 1)
               (acc @ [DirectoryNode n entryPath type_file None])))"
  by pat_completeness auto
termination
  by (relation "measure (\<lambda>x. case x of
         Inl (lc, dirPath, listing, depth, totalFiles) \<Rightarrow> 2 * size_option (size_list size) listing + 1
       | Inr (lc, dirPath, depth, es, fileCount, totalFiles, acc) \<Rightarrow> 2 * (size_list size es + 1))")
     auto

declare analyzeStructure.simps [simp del]

text \<open>
  The part of \<^verbatim>\<open>analyze\<close> that computes \<^verbatim>\<open>structure\<close>: the counter starts at 0, the
  depth at 0.
\<close>

definition analyze_structure ::
  "(string \<Rightarrow> string \<Rightarrow> int) \<Rightarrow> string \<Rightarrow> fsentry list option \<Rightarrow> DirectoryNode" where
  "analyze_structure lc rootPath listing = fst (analyzeStructure lc rootPath listing 0 0)"

text \<open>
  What the bounds are stated on: the number of file nodes of a tree, the number of levels below the
  root, and whether every node has at most \<open>k\<close> file nodes among its children.
\<close>

fun isFileNode :: "DirectoryNode \<Rightarrow> bool" where
  "isFileNode (DirectoryNode n p t cs) = (t = type_file)"

fun countFiles :: "DirectoryNode \<Rightarrow> nat" where
  "countFiles (DirectoryNode n p t cs) =
     (if t = type_file then 1 else 0) +
     (case cs of None \<Rightarrow> 0 | Some l \<Rightarrow> sum_list (map countFiles l))"

fun height :: "DirectoryNode \<Rightarrow> nat" where
  "height (DirectoryNode n p t cs) =
     (case cs of None \<Rightarrow> 0 | Some l \<Rightarrow> foldr (\<lambda>c h. max (Suc (height c)) h) l 0)"

fun filesPerDirAtMost :: "nat \<Rightarrow> DirectoryNode \<Rightarrow> bool" where
  "filesPerDirAtMost k (DirectoryNode n p t cs) =
     (case cs of
        None \<Rightarrow> True
      | Some l \<Rightarrow> length (filter isFileNode l) \<le> k \<and> list_all (filesPerDirAtMost k) l)"

text \<open>Two trees for the examples: a deep one with a wide root, and a wide one.\<close>

definition example_deep_tree :: "fsentry list option" where
  "example_deep_tree =
     Some (replicate 60 (FsFile ''a.ts'') @
       [FsDir ''d1'' (Some [FsDir ''d2'' (Some [FsDir ''d3'' (Some [FsDir ''d4''
          (Some [FsDir ''d5'' (Some [FsFile ''x.ts''])])])])])])"

definition example_wide_tree :: "fsentry list option" where
  "example_wide_tree =
     Some (map (\<lambda>k. FsDir (''d'' @ decimal k) (Some (replicate 60 (FsFile ''f.ts'')))) [0..<11])"

definition example_lc :: "string \<Rightarrow> string \<Rightarrow> int" where
  "example_lc a b = 0"

section \<open>The parsed quiz: one correct choice, five questions\<close>


lemma keepFirstCorrect_True:
  "map isCorrect (keepFirstCorrect True cs) = replicate (length cs) False"
  by (induction cs) auto

lemma keepFirstCorrect_False:
  "filter isCorrect cs \<noteq> [] \<Longrightarrow>
   map isCorrect (keepFirstCorrect False cs) =
     (replicate (length cs) False)[length (takeWhile (\<lambda>c. \<not> isCorrect c) cs) := True]"
  by (induction cs) (auto simp: keepFirstCorrect_True)

lemma keepFirstCorrect_fields:
  "map choice_id (keepFirstCorrect b cs) = map choice_id cs \<and>
   map choice_text (keepFirstCorrect b cs) = map choice_text cs"
  by (induction cs arbitrary: b) auto

lemma one_correct_flags:
  "length (filter isCorrect cs) = 1 \<Longrightarrow>
   map isCorrect cs = (replicate (length cs) False)[length (takeWhile (\<lambda>c. \<not> isCorrect c) cs) := True]"
proof (induction cs)
  case Nil
  then show ?case by simp
next
  case (Cons c cs)
  show ?case
  proof (cases "isCorrect c")
    case True
    with Cons.prems have "filter isCorrect cs = []" by simp
    then have "map isCorrect cs = replicate (length cs) False"
      by (induction cs) (auto split: if_splits)
    with True show ?thesis by simp
  next
    case False
    with Cons show ?thesis by simp
  qed
qed

lemma none_correct_flags:
  "filter isCorrect cs = [] \<Longrightarrow> map isCorrect cs = replicate (length cs) False"
  by (induction cs) (auto split: if_splits)

lemma repairChoices_flags:
  assumes "cs \<noteq> []"
  shows "map isCorrect (repairChoices cs) = (replicate (length cs) False)[firstCorrectIndex cs := True]"
proof -
  consider (zero) "filter isCorrect cs = []"
    | (one) "length (filter isCorrect cs) = 1"
    | (many) "length (filter isCorrect cs) > 1"
    by (cases "filter isCorrect cs") (auto simp: Suc_lessI)
  then show ?thesis
  proof cases
    case zero
    with assms show ?thesis
      by (simp add: repairChoices_def firstCorrectIndex_def map_update none_correct_flags)
  next
    case one
    then have "filter isCorrect cs \<noteq> []" by auto
    with one show ?thesis
      by (simp add: repairChoices_def firstCorrectIndex_def one_correct_flags)
  next
    case many
    then have "filter isCorrect cs \<noteq> []" by auto
    with many show ?thesis
      by (simp add: repairChoices_def firstCorrectIndex_def keepFirstCorrect_False)
  qed
qed

lemma firstCorrectIndex_less: "cs \<noteq> [] \<Longrightarrow> firstCorrectIndex cs < length cs"
proof -
  have "filter isCorrect xs \<noteq> [] \<Longrightarrow> length (takeWhile (\<lambda>c. \<not> isCorrect c) xs) < length xs" for xs
    by (induction xs) (auto split: if_splits)
  then show "cs \<noteq> [] \<Longrightarrow> firstCorrectIndex cs < length cs"
    unfolding firstCorrectIndex_def by auto
qed

lemma count_one_flag:
  "k < n \<Longrightarrow> length (filter (\<lambda>b. b) ((replicate n False)[k := True])) = 1"
proof (induction n arbitrary: k)
  case 0
  then show ?case by simp
next
  case (Suc n)
  then show ?case by (cases k) auto
qed

lemma filter_isCorrect_map:
  "length (filter isCorrect cs) = length (filter (\<lambda>b. b) (map isCorrect cs))"
  by (simp add: filter_map comp_def)

lemma repairChoices_one:
  "cs \<noteq> [] \<Longrightarrow> length (filter isCorrect (repairChoices cs)) = 1"
  by (simp add: filter_isCorrect_map repairChoices_flags count_one_flag firstCorrectIndex_less)

lemma repairChoices_length: "length (repairChoices cs) = length cs"
  using arg_cong[OF conjunct1[OF keepFirstCorrect_fields[of False cs]], of length]
  by (simp add: repairChoices_def Let_def)

lemma repairChoices_fields:
  "map choice_id (repairChoices cs) = map choice_id cs \<and>
   map choice_text (repairChoices cs) = map choice_text cs"
  by (cases cs) (simp_all add: repairChoices_def Let_def keepFirstCorrect_fields map_update)

lemma padQuestions_eq:
  "padQuestions ext techs qs =
     qs @ map (\<lambda>n. createPlaceholderQuestion ext n techs) [Suc (length qs)..<6]"
proof (induction ext techs qs rule: padQuestions.induct)
  case (1 ext techs qs)
  show ?case
  proof (cases "length qs < 5")
    case True
    then have "[Suc (length qs)..<6] = Suc (length qs) # [Suc (Suc (length qs))..<6]"
      by (simp add: upt_conv_Cons)
    with True "1" show ?thesis
      by (subst padQuestions.simps) simp
  next
    case False
    then show ?thesis
      by (subst padQuestions.simps) simp
  qed
qed

lemma placeholder_one_correct:
  "length (filter isCorrect (choices (createPlaceholderQuestion ext n techs))) = 1"
  by (simp add: createPlaceholderQuestion_def Let_def)

lemma mapM_all:
  "mapM f xs = Inr ys \<Longrightarrow> y \<in> set ys \<Longrightarrow> \<exists>x \<in> set xs. f x = Inr y"
  by (induction xs arbitrary: ys) (auto split: sum.splits)

lemma mapM_length: "mapM f xs = Inr ys \<Longrightarrow> length ys = length xs"
  by (induction xs arbitrary: ys) (auto split: sum.splits)

lemma parseQuestion_modelChoices:
  "parseQuestion ext techs iq = Inr q \<Longrightarrow>
   \<exists>cs. modelChoices (snd iq) = Inr cs \<and> choices q = repairChoices cs"
  by (auto simp: parseQuestion_def Let_def split: sum.splits)

lemma parseQuestion_choices:
  "parseQuestion ext techs iq = Inr q \<Longrightarrow> \<exists>cs. choices q = repairChoices cs"
  using parseQuestion_modelChoices by blast

lemma one_correct_in_parseQuestion:
  assumes "parseQuestion ext techs iq = Inr q" "choices q \<noteq> []"
  shows "length (filter isCorrect (choices q)) = 1"
proof -
  from assms(1) obtain cs where cs: "choices q = repairChoices cs"
    using parseQuestion_choices by blast
  with assms(2) have "cs \<noteq> []"
    using repairChoices_length[of cs] by auto
  with cs show ?thesis by (simp add: repairChoices_one)
qed

lemma one_correct_in_parseQuestions:
  assumes "parseQuestions ext response techs = Inr qs" "q \<in> set qs" "choices q \<noteq> []"
  shows "length (filter isCorrect (choices q)) = 1"
proof -
  from assms(1) obtain raw where "mapM (parseQuestion ext techs) (enumerate 0 raw) = Inr qs"
    by (auto simp: parseQuestions_def split: option.splits sum.splits json.splits)
  with assms(2) obtain iq where "parseQuestion ext techs iq = Inr q"
    using mapM_all by fastforce
  then show ?thesis using assms(3) by (rule one_correct_in_parseQuestion)
qed

lemma parseResponse_questions:
  assumes "parseResponse ext response techs = Inr quiz"
  shows "\<exists>qs. parseQuestions ext response techs = Inr qs \<and>
           questions quiz = take 5 (padQuestions ext techs qs)"
  using assms by (auto simp: parseResponse_def split: sum.splits)

lemma one_correct_after_parse:
  assumes "parseResponse ext response techs = Inr quiz"
    and "q \<in> set (questions quiz)" and "choices q \<noteq> []"
  shows "length (filter isCorrect (choices q)) = 1"
proof -
  from assms(1) obtain qs where qs: "parseQuestions ext response techs = Inr qs"
    and quiz: "questions quiz = take 5 (padQuestions ext techs qs)"
    using parseResponse_questions by blast
  from assms(2) quiz have "q \<in> set (padQuestions ext techs qs)"
    by (auto dest: in_set_takeD)
  then consider "q \<in> set qs" | n where "q = createPlaceholderQuestion ext n techs"
    by (auto simp: padQuestions_eq)
  then show ?thesis
  proof cases
    case 1
    with qs show ?thesis using assms(3) by (rule one_correct_in_parseQuestions)
  next
    case 2
    then show ?thesis by (simp add: placeholder_one_correct)
  qed
qed

lemma mapM_nth:
  "mapM f xs = Inr ys \<Longrightarrow> i < length xs \<Longrightarrow> f (xs ! i) = Inr (ys ! i)"
proof (induction xs arbitrary: ys i)
  case Nil
  then show ?case by simp
next
  case (Cons x xs)
  then show ?case by (cases i) (auto split: sum.splits)
qed

lemma parseChoice_fields:
  assumes "parseChoice c = Inr pc"
  shows "isCorrect pc = markedCorrect c"
    and "getProp c ''id'' = Inr v \<Longrightarrow> choice_id pc = orElse v (JStr [])"
    and "getProp c ''text'' = Inr v \<Longrightarrow> choice_text pc = orElse v (JStr [])"
  using assms by (auto simp: parseChoice_def markedCorrect_def split: sum.splits)

lemma parseChoices_flags:
  assumes "mapM parseChoice raw = Inr cs"
  shows "map isCorrect cs = map markedCorrect raw"
proof (rule nth_equalityI)
  show "length (map isCorrect cs) = length (map markedCorrect raw)"
    using mapM_length[OF assms] by simp
next
  fix j assume "j < length (map isCorrect cs)"
  then have j: "j < length raw" "j < length cs" using mapM_length[OF assms] by simp_all
  from mapM_nth[OF assms j(1)] have "isCorrect (cs ! j) = markedCorrect (raw ! j)"
    by (rule parseChoice_fields(1))
  with j show "map isCorrect cs ! j = map markedCorrect raw ! j" by simp
qed

lemma repairedFlags_repairChoices:
  "map isCorrect (repairChoices cs) = repairedFlags (map isCorrect cs)"
proof (cases "cs = []")
  case True
  then show ?thesis by (simp add: repairChoices_def repairedFlags_def)
next
  case False
  have "(True \<in> set (map isCorrect cs)) = (filter isCorrect cs \<noteq> [])"
    by (induction cs) auto
  moreover have "takeWhile Not (map isCorrect cs) = map isCorrect (takeWhile (\<lambda>c. \<not> isCorrect c) cs)"
    by (simp add: takeWhile_map comp_def)
  ultimately show ?thesis
    using False repairChoices_flags[OF False]
    by (simp add: repairedFlags_def firstCorrectIndex_def)
qed

lemma modelChoices_raw:
  assumes "modelChoices q = Inr cs" "getProp q ''choices'' = Inr rc" "orElse rc (JArr []) = JArr rawcs"
  shows "mapM parseChoice rawcs = Inr cs"
  using assms by (simp add: modelChoices_def)

lemma parseResponse_nth:
  assumes "parseResponse ext response techs = Inr quiz"
    and "jsonMatch ext response = Some block" and "JSON_parse ext block = Inr parsed"
    and "getProp parsed ''questions'' = Inr (Some (JArr raw))"
    and "i < length raw" and "i < 5"
  shows "parseQuestion ext techs (i, raw ! i) = Inr (questions quiz ! i)"
proof -
  from assms(1) obtain qs where qs: "parseQuestions ext response techs = Inr qs"
    and quiz: "questions quiz = take 5 (padQuestions ext techs qs)"
    using parseResponse_questions by blast
  from qs assms(2-4) have m: "mapM (parseQuestion ext techs) (enumerate 0 raw) = Inr qs"
    by (simp add: parseQuestions_def)
  then have len: "length qs = length raw"
    using mapM_length by fastforce
  from mapM_nth[OF m, of i] assms(5)
  have "parseQuestion ext techs (i, raw ! i) = Inr (qs ! i)"
    by (simp add: nth_enumerate_eq)
  moreover have "questions quiz ! i = qs ! i"
    using quiz assms(5,6) len by (simp add: padQuestions_eq nth_append)
  ultimately show ?thesis by simp
qed

lemma parseResponse_repairs_model:
  assumes "parseResponse ext response techs = Inr quiz"
    and "jsonMatch ext response = Some block" and "JSON_parse ext block = Inr parsed"
    and "getProp parsed ''questions'' = Inr (Some (JArr raw))"
    and "i < length raw" and "i < 5"
    and "getProp (raw ! i) ''choices'' = Inr rc" and "orElse rc (JArr []) = JArr rawcs"
  shows "map isCorrect (choices (questions quiz ! i)) = repairedFlags (map markedCorrect rawcs) \<and>
    (\<exists>cs. mapM parseChoice rawcs = Inr cs \<and> choices (questions quiz ! i) = repairChoices cs \<and>
       map isCorrect cs = map markedCorrect rawcs \<and>
       map choice_id (choices (questions quiz ! i)) = map choice_id cs \<and>
       map choice_text (choices (questions quiz ! i)) = map choice_text cs) \<and>
    (\<forall>j v. j < length rawcs \<and> getProp (rawcs ! j) ''id'' = Inr v \<longrightarrow>
       choice_id (choices (questions quiz ! i) ! j) = orElse v (JStr [])) \<and>
    (\<forall>j v. j < length rawcs \<and> getProp (rawcs ! j) ''text'' = Inr v \<longrightarrow>
       choice_text (choices (questions quiz ! i) ! j) = orElse v (JStr []))"
proof -
  let ?q = "questions quiz ! i"
  from parseResponse_nth[OF assms(1-6)]
  have pq: "parseQuestion ext techs (i, raw ! i) = Inr ?q" .
  then obtain cs where mc: "modelChoices (raw ! i) = Inr cs" and ch: "choices ?q = repairChoices cs"
    using parseQuestion_modelChoices by fastforce
  from modelChoices_raw[OF mc assms(7,8)] have m: "mapM parseChoice rawcs = Inr cs" .
  have fl: "map isCorrect cs = map markedCorrect rawcs"
    using m by (rule parseChoices_flags)
  have 1: "map isCorrect (choices ?q) = repairedFlags (map markedCorrect rawcs)"
    using ch fl repairedFlags_repairChoices[of cs] by simp
  have ids: "map choice_id (choices ?q) = map choice_id cs"
    and txs: "map choice_text (choices ?q) = map choice_text cs"
    using ch repairChoices_fields[of cs] by simp_all
  have len: "length cs = length rawcs" using mapM_length[OF m] .
  have 3: "choice_id (choices ?q ! j) = orElse v (JStr [])"
    if "j < length rawcs" "getProp (rawcs ! j) ''id'' = Inr v" for j v
  proof -
    from that(1) len have "choice_id (choices ?q ! j) = choice_id (cs ! j)"
      using arg_cong[OF ids, of "\<lambda>l. l ! j"] ch repairChoices_length[of cs] by simp
    with parseChoice_fields(2)[OF mapM_nth[OF m that(1)] that(2)] show ?thesis by simp
  qed
  have 4: "choice_text (choices ?q ! j) = orElse v (JStr [])"
    if "j < length rawcs" "getProp (rawcs ! j) ''text'' = Inr v" for j v
  proof -
    from that(1) len have "choice_text (choices ?q ! j) = choice_text (cs ! j)"
      using arg_cong[OF txs, of "\<lambda>l. l ! j"] ch repairChoices_length[of cs] by simp
    with parseChoice_fields(3)[OF mapM_nth[OF m that(1)] that(2)] show ?thesis by simp
  qed
  from 1 m ch fl ids txs 3 4 show ?thesis by blast
qed

text \<open>
  C1 (as amended). Every question of a parsed quiz that has at least one choice has exactly one
  choice with \<open>isCorrect\<close>. The choices of each of the first five questions of the model are
  the model's own choices, in their order and with their ids and texts, and their flags are
  the flags the model gave (\<^verbatim>\<open>isCorrect === true\<close>) repaired: with no flag set the first
  choice is forced correct, with more than one only the first flagged choice is kept. On
  any list that is not empty the repair leaves exactly the choice at \<open>firstCorrectIndex\<close>
  correct and changes no other field. A question whose list of choices is empty keeps it:
  the guard \<^verbatim>\<open>choices.length > 0\<close> leaves it without a correct choice.
\<close>

theorem parseResponse_one_correct_choice:
  "(parseResponse ext response techs = Inr quiz \<longrightarrow> q \<in> set (questions quiz) \<longrightarrow>
      choices q \<noteq> [] \<longrightarrow> length (filter isCorrect (choices q)) = 1) \<and>
   (parseResponse ext response techs = Inr quiz \<and>
    jsonMatch ext response = Some block \<and> JSON_parse ext block = Inr parsed \<and>
    getProp parsed ''questions'' = Inr (Some (JArr raw)) \<and> i < length raw \<and> i < 5 \<and>
    getProp (raw ! i) ''choices'' = Inr rc \<and> orElse rc (JArr []) = JArr rawcs \<longrightarrow>
      map isCorrect (choices (questions quiz ! i)) = repairedFlags (map markedCorrect rawcs) \<and>
      (\<exists>pcs. mapM parseChoice rawcs = Inr pcs \<and> choices (questions quiz ! i) = repairChoices pcs \<and>
         map isCorrect pcs = map markedCorrect rawcs \<and>
         map choice_id (choices (questions quiz ! i)) = map choice_id pcs \<and>
         map choice_text (choices (questions quiz ! i)) = map choice_text pcs) \<and>
      (\<forall>j v. j < length rawcs \<and> getProp (rawcs ! j) ''id'' = Inr v \<longrightarrow>
         choice_id (choices (questions quiz ! i) ! j) = orElse v (JStr [])) \<and>
      (\<forall>j v. j < length rawcs \<and> getProp (rawcs ! j) ''text'' = Inr v \<longrightarrow>
         choice_text (choices (questions quiz ! i) ! j) = orElse v (JStr []))) \<and>
   (parseQuestion ext techs iq = Inr pq \<longrightarrow> (\<exists>raw. choices pq = repairChoices raw)) \<and>
   (cs \<noteq> [] \<longrightarrow>
      map isCorrect (repairChoices cs) = (replicate (length cs) False)[firstCorrectIndex cs := True] \<and>
      firstCorrectIndex cs < length cs \<and>
      map choice_id (repairChoices cs) = map choice_id cs \<and>
      map choice_text (repairChoices cs) = map choice_text cs)"
proof -
  have a: "parseResponse ext response techs = Inr quiz \<longrightarrow> q \<in> set (questions quiz) \<longrightarrow>
      choices q \<noteq> [] \<longrightarrow> length (filter isCorrect (choices q)) = 1"
    using one_correct_after_parse by blast
  have b: "parseResponse ext response techs = Inr quiz \<and>
    jsonMatch ext response = Some block \<and> JSON_parse ext block = Inr parsed \<and>
    getProp parsed ''questions'' = Inr (Some (JArr raw)) \<and> i < length raw \<and> i < 5 \<and>
    getProp (raw ! i) ''choices'' = Inr rc \<and> orElse rc (JArr []) = JArr rawcs \<longrightarrow>
      map isCorrect (choices (questions quiz ! i)) = repairedFlags (map markedCorrect rawcs) \<and>
      (\<exists>pcs. mapM parseChoice rawcs = Inr pcs \<and> choices (questions quiz ! i) = repairChoices pcs \<and>
         map isCorrect pcs = map markedCorrect rawcs \<and>
         map choice_id (choices (questions quiz ! i)) = map choice_id pcs \<and>
         map choice_text (choices (questions quiz ! i)) = map choice_text pcs) \<and>
      (\<forall>j v. j < length rawcs \<and> getProp (rawcs ! j) ''id'' = Inr v \<longrightarrow>
         choice_id (choices (questions quiz ! i) ! j) = orElse v (JStr [])) \<and>
      (\<forall>j v. j < length rawcs \<and> getProp (rawcs ! j) ''text'' = Inr v \<longrightarrow>
         choice_text (choices (questions quiz ! i) ! j) = orElse v (JStr []))"
  proof (rule impI, elim conjE)
    assume "parseResponse ext response techs = Inr quiz"
      "jsonMatch ext response = Some block" "JSON_parse ext block = Inr parsed"
      "getProp parsed ''questions'' = Inr (Some (JArr raw))" "i < length raw" "i < 5"
      "getProp (raw ! i) ''choices'' = Inr rc" "orElse rc (JArr []) = JArr rawcs"
    then show "map isCorrect (choices (questions quiz ! i)) = repairedFlags (map markedCorrect rawcs) \<and>
      (\<exists>pcs. mapM parseChoice rawcs = Inr pcs \<and> choices (questions quiz ! i) = repairChoices pcs \<and>
         map isCorrect pcs = map markedCorrect rawcs \<and>
         map choice_id (choices (questions quiz ! i)) = map choice_id pcs \<and>
         map choice_text (choices (questions quiz ! i)) = map choice_text pcs) \<and>
      (\<forall>j v. j < length rawcs \<and> getProp (rawcs ! j) ''id'' = Inr v \<longrightarrow>
         choice_id (choices (questions quiz ! i) ! j) = orElse v (JStr [])) \<and>
      (\<forall>j v. j < length rawcs \<and> getProp (rawcs ! j) ''text'' = Inr v \<longrightarrow>
         choice_text (choices (questions quiz ! i) ! j) = orElse v (JStr []))"
      by (rule parseResponse_repairs_model)
  qed
  have c: "parseQuestion ext techs iq = Inr pq \<longrightarrow> (\<exists>raw. choices pq = repairChoices raw)"
    using parseQuestion_choices by blast
  have d: "cs \<noteq> [] \<longrightarrow>
      map isCorrect (repairChoices cs) = (replicate (length cs) False)[firstCorrectIndex cs := True] \<and>
      firstCorrectIndex cs < length cs \<and>
      map choice_id (repairChoices cs) = map choice_id cs \<and>
      map choice_text (repairChoices cs) = map choice_text cs"
    using repairChoices_flags firstCorrectIndex_less repairChoices_fields by blast
  from a b c d show ?thesis by (intro conjI)
qed

theorem parseResponse_one_correct_choice_witness:
  "length (filter isCorrect
     (choices (questions (projr (parseResponse example_ext [] [''React''])) ! 1))) = 1 \<and>
   map markedCorrect example_raw_choices = [False, True, True] \<and>
   map isCorrect (choices (questions (projr (parseResponse example_ext [] [''React''])) ! 1)) =
     [False, True, False] \<and>
   choice_id (choices (questions (projr (parseResponse example_ext [] [''React''])) ! 1) ! 1) =
     JStr ''B'' \<and>
   map isCorrect (repairChoices example_choices) = [False, True, False] \<and>
   map choice_id (repairChoices example_choices) = [JStr ''A'', JStr ''B'', JStr ''C'']"
proof -
  let ?r = "parseResponse example_ext [] [''React'']"
  let ?q = "questions (projr ?r) ! 1"
  note inst = parseResponse_one_correct_choice
    [where ext = example_ext and response = "[]" and techs = "[''React'']" and quiz = "projr ?r"
       and q = "?q" and block = "[]" and parsed = example_parsed and raw = example_raw_questions
       and i = 1 and rc = "Some (JArr example_raw_choices)" and rawcs = example_raw_choices
       and cs = example_choices]
  have h1: "?r = Inr (projr ?r)" by code_simp
  have h2: "?q \<in> set (questions (projr ?r))" by code_simp
  have h3: "choices ?q \<noteq> []" by code_simp
  have h4: "example_choices \<noteq> []" by (simp add: example_choices_def)
  have h5: "firstCorrectIndex example_choices = 1"
    by (simp add: firstCorrectIndex_def example_choices_def)
  have h6: "map choice_id example_choices = [JStr ''A'', JStr ''B'', JStr ''C'']"
    by (simp add: example_choices_def)
  have h7: "length example_choices = 3" by (simp add: example_choices_def)
  have g: "jsonMatch example_ext [] = Some [] \<and> JSON_parse example_ext [] = Inr example_parsed \<and>
    getProp example_parsed ''questions'' = Inr (Some (JArr example_raw_questions)) \<and>
    (1::nat) < length example_raw_questions \<and> (1::nat) < 5 \<and>
    getProp (example_raw_questions ! 1) ''choices'' = Inr (Some (JArr example_raw_choices)) \<and>
    orElse (Some (JArr example_raw_choices)) (JArr []) = JArr example_raw_choices"
    by (simp add: example_ext_def example_parsed_def getProp_def example_raw_questions_def
        orElse_def)
  have m: "map markedCorrect example_raw_choices = [False, True, True]"
    by (simp add: markedCorrect_def example_raw_choices_def getProp_def)
  have rf: "repairedFlags [False, True, True] = [False, True, False]"
    by (simp add: repairedFlags_def)
  have l: "(1::nat) < length example_raw_choices \<and>
           getProp (example_raw_choices ! 1) ''id'' = Inr (Some (JStr ''B''))"
    by (simp add: example_raw_choices_def getProp_def)
  from inst h1 h2 h3 have 1: "length (filter isCorrect (choices ?q)) = 1"
    by blast
  from inst h1 g have 2: "map isCorrect (choices ?q) = repairedFlags (map markedCorrect example_raw_choices)"
    and 3: "\<forall>j v. j < length example_raw_choices \<and> getProp (example_raw_choices ! j) ''id'' = Inr v \<longrightarrow>
         choice_id (choices ?q ! j) = orElse v (JStr [])"
    by blast+
  from 3 l have 4: "choice_id (choices ?q ! 1) = orElse (Some (JStr ''B'')) (JStr [])"
    by blast
  from inst h4 have 5: "map isCorrect (repairChoices example_choices) =
      (replicate (length example_choices) False)[firstCorrectIndex example_choices := True] \<and>
    map choice_id (repairChoices example_choices) = map choice_id example_choices"
    by blast
  from 1 2 4 5 m rf show ?thesis
    by (simp add: h5 h6 h7 numeral_3_eq_3 orElse_def)
qed

text \<open>
  C1 as the specification words it fails: the model's question with \<^verbatim>\<open>"choices": []\<close> is
  accepted and has no correct choice in the parsed quiz.
\<close>

theorem parseResponse_no_choice_counterexample:
  "\<not> isl (parseResponse example_ext [] [''React'']) \<and>
   map (\<lambda>q. length (filter isCorrect (choices q)))
     (questions (projr (parseResponse example_ext [] [''React'']))) = [0, 1, 1, 1, 1]"
  by code_simp



section \<open>The generator ends with one terminal event\<close>




















section \<open>The projection of a quiz hides the correct choices\<close>





section \<open>checkAnswer throws on a missing quiz or question\<close>

text \<open>
  C10. \<open>checkAnswer\<close> throws \<^verbatim>\<open>Error("Quiz not found")\<close> when no quiz is stored or the stored
  quiz has another id, throws \<^verbatim>\<open>Error("Question not found")\<close> when no question of the stored
  quiz has the given id, and only otherwise returns the verdict, the id of the correct choice
  and the explanation of the first question with that id.
\<close>

theorem checkAnswer_throws:
  "(quizFile = None \<longrightarrow>
      checkAnswer quizFile quizId questionId selected = Inl (Error ''Quiz not found'')) \<and>
   (quizFile = Some quiz \<and> quiz_id quiz \<noteq> quizId \<longrightarrow>
      checkAnswer quizFile quizId questionId selected = Inl (Error ''Quiz not found'')) \<and>
   (quizFile = Some quiz \<and> quiz_id quiz = quizId \<and>
    find (\<lambda>q. question_id q = questionId) (questions quiz) = None \<longrightarrow>
      checkAnswer quizFile quizId questionId selected = Inl (Error ''Question not found'')) \<and>
   (quizFile = Some quiz \<and> quiz_id quiz = quizId \<and>
    find (\<lambda>q. question_id q = questionId) (questions quiz) = Some question \<longrightarrow>
      checkAnswer quizFile quizId questionId selected =
        Inr \<lparr> answer_isCorrect =
                (case find isCorrect (choices question) of
                   None \<Rightarrow> False
                 | Some c \<Rightarrow> choice_id c = JStr selected),
              correctChoiceId =
                (case find isCorrect (choices question) of
                   None \<Rightarrow> JStr []
                 | Some c \<Rightarrow> if truthy (choice_id c) then choice_id c else JStr []),
              answer_explanation = explanation question \<rparr>)"
  by (auto simp: checkAnswer_def loadQuiz_def orElse_def Let_def split: option.splits)

theorem checkAnswer_throws_witness:
  "checkAnswer None ''quiz-1'' ''q-1'' ''B'' = Inl (Error ''Quiz not found'') \<and>
   checkAnswer (Some example_quiz) ''quiz-2'' ''q-1'' ''B'' = Inl (Error ''Quiz not found'') \<and>
   checkAnswer (Some example_quiz) ''quiz-1'' ''q-9'' ''B'' = Inl (Error ''Question not found'') \<and>
   checkAnswer (Some example_quiz) ''quiz-1'' ''q-1'' ''A'' =
     Inr \<lparr> answer_isCorrect = False, correctChoiceId = JStr ''B'',
           answer_explanation = JStr ''B, because ...'' \<rparr>"
proof -
  have a: "quiz_id example_quiz = ''quiz-1''" by (simp add: example_quiz_def)
  have b: "find (\<lambda>q. question_id q = ''q-9'') (questions example_quiz) = None"
    by (simp add: example_quiz_def)
  have c: "find (\<lambda>q. question_id q = ''q-1'') (questions example_quiz) =
             Some (hd (questions example_quiz))"
    by (simp add: example_quiz_def)
  have d: "find isCorrect (choices (hd (questions example_quiz))) =
             Some \<lparr> choice_id = JStr ''B'', choice_text = JStr ''b'', isCorrect = True \<rparr>"
    by (simp add: example_quiz_def)
  have e: "explanation (hd (questions example_quiz)) = JStr ''B, because ...''"
    by (simp add: example_quiz_def)
  from checkAnswer_throws[of None "''quiz-1''" "''q-1''" "''B''" example_quiz "hd (questions example_quiz)"]
    checkAnswer_throws[of "Some example_quiz" "''quiz-2''" "''q-1''" "''B''" example_quiz
      "hd (questions example_quiz)"]
    checkAnswer_throws[of "Some example_quiz" "''quiz-1''" "''q-9''" "''B''" example_quiz
      "hd (questions example_quiz)"]
    checkAnswer_throws[of "Some example_quiz" "''quiz-1''" "''q-1''" "''A''" example_quiz
      "hd (questions example_quiz)"]
    a b c d e
  show ?thesis by simp
qed

section \<open>The streak\<close>


lemma Math_round_of_int: "Math_round (of_int k) = k"
  by (simp add: Math_round_def) linarith

lemma Math_round_quotient:
  "b > 0 \<Longrightarrow> Math_round (of_int a / of_int b) = (2 * a + b) div (2 * b)"
proof -
  assume b: "b > 0"
  have "(of_int a / of_int b + 1 / 2 :: rat) = of_int (2 * a + b) / of_int (2 * b)"
    using b by (simp add: field_simps)
  then show ?thesis
    unfolding Math_round_def by (simp only: floor_divide_of_int_eq)
qed

lemma diffDays_eq:
  "Math_round (of_int (getTime c - getTime p) / of_int MS_PER_DAY) = c - p"
proof -
  have "getTime c - getTime p = (c - p) * MS_PER_DAY"
    by (simp add: getTime_def algebra_simps)
  moreover have "(of_int ((c - p) * MS_PER_DAY) / of_int MS_PER_DAY :: rat) = of_int (c - p)"
    by (simp add: MS_PER_DAY_def)
  ultimately show ?thesis by (simp only: Math_round_of_int)
qed

lemma streakLoop_eq:
  "streakLoop n ds = n + length (takeWhile (\<lambda>(d, p). d - p = 1) (zip ds (tl ds)))"
proof (induction n ds rule: streakLoop.induct)
  case (1 streak currentDate prevDate rest)
  then show ?case by (simp add: diffDays_eq Let_def del: of_int_diff)
qed simp_all

lemma yesterday_eq: "dateOf (clock - 86400000) = dateOf clock - 1"
  by (simp add: dateOf_def MS_PER_DAY_def)

lemma calculateStreak_eq:
  "calculateStreak clock dates =
     (if dates = [] then 0
      else if hd (rev (sort dates)) \<noteq> dateOf clock \<and> hd (rev (sort dates)) \<noteq> dateOf clock - 1
      then 0
      else 1 + length (takeWhile (\<lambda>(d, p). d - p = 1)
                 (zip (rev (sort dates)) (tl (rev (sort dates))))))"
  by (simp add: calculateStreak_def Let_def yesterday_eq streakLoop_eq)

lemma adjacent_sorted_wrt:
  "sorted_wrt R xs \<Longrightarrow> (d, p) \<in> set (zip xs (tl xs)) \<Longrightarrow> R d p"
proof (induction xs)
  case Nil
  then show ?case by simp
next
  case (Cons x xs)
  then show ?case by (cases xs) auto
qed

lemma descending_distinct:
  "distinct (dates :: int list) \<Longrightarrow> sorted_wrt (\<lambda>d p. p < d) (rev (sort dates))"
  by (simp add: sorted_wrt_rev strict_sorted_iff)

lemma calculateStreak_streakSpec:
  assumes "distinct dates"
  shows "calculateStreak clock dates = streakSpec (dateOf clock) dates"
proof -
  let ?s = "rev (sort dates)"
  let ?pairs = "zip ?s (tl ?s)"
  have gap: "(\<not> d - p > 1) = (d - p = 1)" if "(d, p) \<in> set ?pairs" for d p
    using adjacent_sorted_wrt[OF descending_distinct[OF assms] that] by auto
  have tw: "takeWhile (\<lambda>(d, p). \<not> d - p > 1) ?pairs = takeWhile (\<lambda>(d, p). d - p = 1) ?pairs"
    by (rule takeWhile_cong) (use gap in auto)
  have "filter (\<lambda>(d, p). d - p = 1) (takeWhile (\<lambda>(d, p). d - p = 1) ?pairs) =
        takeWhile (\<lambda>(d, p). d - p = 1) ?pairs"
    by (rule filter_True) (auto dest: set_takeWhileD)
  with tw show ?thesis
    by (simp add: calculateStreak_eq streakSpec_def Let_def)
qed

lemma sort_of_set:
  "distinct (xs :: int list) \<Longrightarrow> distinct ys \<Longrightarrow> sorted ys \<Longrightarrow> set xs = set ys \<Longrightarrow> sort xs = ys"
  by (metis distinct_remdups_id sorted_list_of_set_sort_remdups sorted_sort_id)

lemma streak_three:
  assumes "distinct dates" "set dates = {dateOf clock - 2, dateOf clock - 1, dateOf clock}"
  shows "calculateStreak clock dates = 3"
proof -
  have "sort dates = [dateOf clock - 2, dateOf clock - 1, dateOf clock]"
    using assms by (intro sort_of_set) auto
  moreover have "dates \<noteq> []" using assms(2) by auto
  ultimately show ?thesis by (simp add: calculateStreak_eq)
qed

lemma streak_single:
  "calculateStreak clock [dateOf clock - 5] = 0 \<and> calculateStreak clock [dateOf clock] = 1"
  by (simp add: calculateStreak_eq)

text \<open>
  The writers of the list of learning dates keep it free of repetitions.
\<close>

lemma calculateFromCurriculum_fresh:
  "calculateFromCurriculum c = Inr fresh \<Longrightarrow>
   taskStats fresh = [] \<and> actualTimeSpentMinutes fresh = 0 \<and> learningDates fresh = []"
  by (auto simp: calculateFromCurriculum_def Let_def split: sum.splits)

lemma updateTaskStatistics_dates_distinct:
  assumes "case file of None \<Rightarrow> True | Some s \<Rightarrow> distinct (learningDates s)"
    and "updateTaskStatistics w t clock file cid tid old new cur = (Inr r, f)"
  shows "distinct (learningDates r)"
proof (cases "calculateFromCurriculum cur")
  case (Inl e)
  with assms(2) show ?thesis by (simp add: updateTaskStatistics_def)
next
  case (Inr fresh)
  note fr = calculateFromCurriculum_fresh[OF Inr]
  show ?thesis
  proof (cases w)
    case (Some e)
    with assms(2) Inr show ?thesis
      by (simp add: updateTaskStatistics_def saveStatistics_def Let_def split_beta)
  next
    case None
    with assms Inr fr show ?thesis
      by (cases "file")
         (auto simp: updateTaskStatistics_def saveStatistics_def loadStatistics_def Let_def
            split_beta)
  qed
qed

lemma calculateStreak_day:
  "dateOf clock = dateOf clock' \<Longrightarrow> calculateStreak clock dates = calculateStreak clock' dates"
  by (simp add: calculateStreak_eq)

text \<open>
  C3. \<open>calculateStreak\<close> depends on the list of dates and on the day of the call only. It
  is none for an empty list and when the most recent date is neither today nor yesterday,
  and otherwise one plus the number of adjacent pairs a day apart at the head of the dates in
  descending order. On a list of dates without repetition (the learning dates are kept so)
  that is the streak of the specification, which reads the pairs up to the first gap of more
  than a day. With today \<open>D\<close>: the dates \<open>D - 2\<close>, \<open>D - 1\<close>, \<open>D\<close>, in any order, give 3;
  \<open>D - 5\<close> alone gives 0; \<open>D\<close> alone gives 1.
\<close>

theorem calculateStreak_spec:
  "(dateOf clock = dateOf clock' \<longrightarrow> calculateStreak clock dates = calculateStreak clock' dates) \<and>
   calculateStreak clock dates =
     (if dates = [] then 0
      else if hd (rev (sort dates)) \<noteq> dateOf clock \<and> hd (rev (sort dates)) \<noteq> dateOf clock - 1
      then 0
      else 1 + length (takeWhile (\<lambda>(d, p). d - p = 1)
                 (zip (rev (sort dates)) (tl (rev (sort dates)))))) \<and>
   (distinct dates \<longrightarrow> calculateStreak clock dates = streakSpec (dateOf clock) dates) \<and>
   (distinct dates \<and> set dates = {dateOf clock - 2, dateOf clock - 1, dateOf clock} \<longrightarrow>
      calculateStreak clock dates = 3) \<and>
   calculateStreak clock [dateOf clock - 5] = 0 \<and>
   calculateStreak clock [dateOf clock] = 1"
  using calculateStreak_streakSpec[of dates clock] streak_three[of dates clock]
    streak_single[of clock] calculateStreak_eq[of clock dates]
    calculateStreak_day[of clock clock' dates]
  by blast

theorem calculateStreak_spec_witness:
  "calculateStreak 1728000012345 [19995, 19998, 19999, 20000] = 3 \<and>
   streakSpec 20000 [19995, 19998, 19999, 20000] = 3 \<and>
   calculateStreak 1728000012345 [19999, 20000, 19998] = 3 \<and>
   calculateStreak 1728000012345 [19995] = 0 \<and>
   calculateStreak 1728000012345 [20000] = 1"
proof -
  have d: "dateOf 1728000012345 = 20000"
    by (simp add: dateOf_def MS_PER_DAY_def)
  have s: "streakSpec 20000 [19995, 19998, 19999, 20000] = 3"
    by (simp add: streakSpec_def)
  have a: "distinct [19995, 19998, 19999, 20000 :: int]" by simp
  have b: "distinct [19999, 20000, 19998 :: int] \<and>
           set [19999, 20000, 19998 :: int] = {20000 - 2, 20000 - 1, 20000}"
    by auto
  from calculateStreak_spec[of 1728000012345 1728000012345 "[19995, 19998, 19999, 20000]"] a
  have 1: "calculateStreak 1728000012345 [19995, 19998, 19999, 20000] = 3"
    unfolding d s by blast
  from calculateStreak_spec[of 1728000012345 1728000012345 "[19999, 20000, 19998]"] b
  have 2: "calculateStreak 1728000012345 [19999, 20000, 19998] = 3"
    unfolding d by blast
  from calculateStreak_spec[of 1728000012345 1728000012345 "[]"]
  have 3: "calculateStreak 1728000012345 [19995] = 0 \<and> calculateStreak 1728000012345 [20000] = 1"
    unfolding d by simp
  from 1 s 2 3 show ?thesis by blast
qed

section \<open>Timing of the tasks\<close>


lemma findIndex_None: "(findIndex p xs = None) = (\<forall>x \<in> set xs. \<not> p x)"
  by (induction xs) auto

lemma findIndex_Some:
  "findIndex p xs = Some i \<Longrightarrow> i < length xs \<and> p (xs ! i) \<and> find p xs = Some (xs ! i)"
  by (induction xs arbitrary: i) (auto split: if_splits)

lemma find_None_findIndex: "(find p xs = None) = (findIndex p xs = None)"
  by (induction xs) auto

lemma find_update_hit:
  "findIndex p xs = Some i \<Longrightarrow> p y \<Longrightarrow> find p (xs[i := y]) = Some y"
  by (induction xs arbitrary: i) (auto split: if_splits)

lemma find_update_miss:
  "i < length xs \<Longrightarrow> \<not> q (xs ! i) \<Longrightarrow> \<not> q y \<Longrightarrow> find q (xs[i := y]) = find q xs"
proof (induction xs arbitrary: i)
  case Nil
  then show ?case by simp
next
  case (Cons x xs)
  then show ?case by (cases i) auto
qed

lemma find_append_one:
  "find p (xs @ [y]) = (case find p xs of Some x \<Rightarrow> Some x | None \<Rightarrow> if p y then Some y else None)"
  by (induction xs) auto

lemma updateTiming_taskId: "taskId (fst (updateTiming t old new ts)) = taskId ts"
  by (simp add: updateTiming_def Let_def split: option.splits)

text \<open>The statistics after a call whose write succeeds.\<close>

lemma taskStatOf_taskId: "taskId (taskStatOf tid file) = tid"
  unfolding taskStatOf_def
  by (auto split: option.splits dest: find_Some_iff[THEN iffD1])

lemma updateTaskStatistics_unfold:
  assumes fresh: "calculateFromCurriculum cur = Inr fresh"
  shows "\<exists>r. updateTaskStatistics None t clock file cid tid old new cur = (Inr r, Some r) \<and>
     taskStats r =
       (case findIndex (\<lambda>ts. taskId ts = tid) (case file of None \<Rightarrow> [] | Some s \<Rightarrow> taskStats s) of
          Some i \<Rightarrow> (case file of None \<Rightarrow> [] | Some s \<Rightarrow> taskStats s)
                      [i := fst (updateTiming t old new (taskStatOf tid file))]
        | None \<Rightarrow> (case file of None \<Rightarrow> [] | Some s \<Rightarrow> taskStats s) @
                      [fst (updateTiming t old new (taskStatOf tid file))]) \<and>
     actualTimeSpentMinutes r =
       documentMinutes file + snd (updateTiming t old new (taskStatOf tid file))"
proof -
  note fr = calculateFromCurriculum_fresh[OF fresh]
  show ?thesis
  proof (cases "file")
    case None
    with fresh fr show ?thesis
      by (simp add: updateTaskStatistics_def loadStatistics_def saveStatistics_def Let_def
          split_beta taskStatOf_def documentMinutes_def)
  next
    case (Some s)
    show ?thesis
    proof (cases "findIndex (\<lambda>ts. taskId ts = tid) (taskStats s)")
      case None
      then have "find (\<lambda>ts. taskId ts = tid) (taskStats s) = None"
        by (simp add: find_None_findIndex)
      with None Some fresh show ?thesis
        by (simp add: updateTaskStatistics_def loadStatistics_def saveStatistics_def Let_def
            split_beta taskStatOf_def documentMinutes_def)
    next
      case (Some i)
      then have "find (\<lambda>ts. taskId ts = tid) (taskStats s) = Some (taskStats s ! i)"
        using findIndex_Some by fastforce
      with Some \<open>file = Some s\<close> fresh show ?thesis
        by (simp add: updateTaskStatistics_def loadStatistics_def saveStatistics_def Let_def
            split_beta taskStatOf_def documentMinutes_def)
    qed
  qed
qed

lemma updateTaskStatistics_saved:
  assumes fresh: "calculateFromCurriculum cur = Inr fresh"
  shows "\<exists>r. updateTaskStatistics None t clock file cid tid old new cur = (Inr r, Some r) \<and>
     find (\<lambda>ts. taskId ts = tid) (taskStats r) = Some (fst (updateTiming t old new (taskStatOf tid file))) \<and>
     actualTimeSpentMinutes r = documentMinutes file + snd (updateTiming t old new (taskStatOf tid file)) \<and>
     (\<forall>other. other \<noteq> tid \<longrightarrow> taskMinutes other (Some r) = taskMinutes other file)"
proof -
  define prev where "prev = (case file of None \<Rightarrow> [] | Some s \<Rightarrow> taskStats s)"
  define ts0 where "ts0 = taskStatOf tid file"
  define ts1 where "ts1 = fst (updateTiming t old new ts0)"
  have id1: "taskId ts1 = tid" "taskId ts0 = tid"
    by (simp_all add: ts1_def ts0_def updateTiming_taskId taskStatOf_taskId)
  from updateTaskStatistics_unfold[OF fresh, of t clock "file" cid tid old new]
  obtain r where r: "updateTaskStatistics None t clock file cid tid old new cur = (Inr r, Some r)"
    and st: "taskStats r =
       (case findIndex (\<lambda>ts. taskId ts = tid) prev of
          Some i \<Rightarrow> prev[i := ts1] | None \<Rightarrow> prev @ [ts1])"
    and act: "actualTimeSpentMinutes r = documentMinutes file + snd (updateTiming t old new ts0)"
    unfolding prev_def ts0_def ts1_def by blast
  have prevmin: "taskMinutes other file =
      (case find (\<lambda>ts. taskId ts = other) prev of None \<Rightarrow> 0 | Some ts \<Rightarrow> timeSpentMinutes ts)" for other
    by (simp add: taskMinutes_def prev_def split: option.splits)
  have "find (\<lambda>ts. taskId ts = tid) (taskStats r) = Some ts1 \<and>
     (\<forall>other. other \<noteq> tid \<longrightarrow>
        find (\<lambda>ts. taskId ts = other) (taskStats r) = find (\<lambda>ts. taskId ts = other) prev)"
  proof (cases "findIndex (\<lambda>ts. taskId ts = tid) prev")
    case None
    then have "find (\<lambda>ts. taskId ts = tid) prev = None"
      by (simp add: find_None_findIndex)
    with None st id1 show ?thesis
      by (auto simp: find_append_one split: option.splits)
  next
    case (Some i)
    then have i: "i < length prev" "taskId (prev ! i) = tid"
      using findIndex_Some by fastforce+
    have "find (\<lambda>ts. taskId ts = other) (prev[i := ts1]) = find (\<lambda>ts. taskId ts = other) prev"
      if "other \<noteq> tid" for other
      using that id1 i by (intro find_update_miss) auto
    moreover have "find (\<lambda>ts. taskId ts = tid) (prev[i := ts1]) = Some ts1"
      using Some id1 by (intro find_update_hit) auto
    ultimately show ?thesis using Some st by simp
  qed
  with r act prevmin show ?thesis
    unfolding ts1_def ts0_def by (auto simp: taskMinutes_def)
qed

lemma updateTaskStatistics_failed:
  "snd (updateTaskStatistics (Some e) t clock file cid tid old new cur) = file"
  by (simp add: updateTaskStatistics_def saveStatistics_def Let_def split_beta split: sum.splits)

lemma updateTaskStatistics_throws:
  "calculateFromCurriculum cur = Inl e \<Longrightarrow>
   updateTaskStatistics w t clock file cid tid old new cur = (Inl e, file)"
  by (simp add: updateTaskStatistics_def)

lemma taskMinutes_taskStatOf: "taskMinutes tid file = timeSpentMinutes (taskStatOf tid file)"
  by (simp add: taskMinutes_def taskStatOf_def split: option.splits)

lemma taskStatOf_saved:
  "find (\<lambda>ts. taskId ts = tid) (taskStats r) = Some ts \<Longrightarrow> taskStatOf tid (Some r) = ts"
  by (simp add: taskStatOf_def)

text \<open>
  The timing rule, on a curriculum whose estimates are all texts (so that
  \<open>calculateFromCurriculum\<close> returns). A call of \<open>updateTaskStatistics\<close> whose write
  succeeds saves the statistics it returns, and in them: on entering \<open>in_progress\<close> from
  another status the task has \<open>startedAt = t\<close> and no time is added; on going from
  \<open>in_progress\<close> to \<open>completed\<close> the task has \<open>completedAt = t\<close> and, when \<open>startedAt\<close> was
  set to \<open>s\<close>, the minutes \<open>Math_round ((t - s) / 60000)\<close> are added to the minutes of the
  task and to those of the document, both read from the file saved by the calls before (so
  they accumulate), and nothing is added when \<open>startedAt\<close> was not set; any other pair of
  statuses adds no time; the minutes of the other tasks never change.
\<close>

lemma updateTaskStatistics_timing:
  assumes fresh: "calculateFromCurriculum cur = Inr fresh"
  shows "\<exists>r. updateTaskStatistics None t clock file cid tid old new cur = (Inr r, Some r) \<and>
     (new = in_progress \<and> old \<noteq> in_progress \<longrightarrow>
        startedAt (taskStatOf tid (Some r)) = Some t \<and>
        taskMinutes tid (Some r) = taskMinutes tid file \<and>
        documentMinutes (Some r) = documentMinutes file) \<and>
     (new = completed \<and> old = in_progress \<longrightarrow>
        completedAt (taskStatOf tid (Some r)) = Some t \<and>
        (\<forall>s. startedAt (taskStatOf tid file) = Some s \<longrightarrow>
           taskMinutes tid (Some r) = taskMinutes tid file + Math_round (of_int (t - s) / 60000) \<and>
           documentMinutes (Some r) = documentMinutes file + Math_round (of_int (t - s) / 60000)) \<and>
        (startedAt (taskStatOf tid file) = None \<longrightarrow>
           taskMinutes tid (Some r) = taskMinutes tid file \<and>
           documentMinutes (Some r) = documentMinutes file)) \<and>
     (\<not> (new = completed \<and> old = in_progress) \<longrightarrow>
        taskMinutes tid (Some r) = taskMinutes tid file \<and>
        documentMinutes (Some r) = documentMinutes file) \<and>
     (\<forall>other. other \<noteq> tid \<longrightarrow> taskMinutes other (Some r) = taskMinutes other file)"
proof -
  from updateTaskStatistics_saved[OF fresh, of t clock "file" cid tid old new]
  obtain r where r: "updateTaskStatistics None t clock file cid tid old new cur = (Inr r, Some r)"
    and ts: "taskStatOf tid (Some r) = fst (updateTiming t old new (taskStatOf tid file))"
    and act: "documentMinutes (Some r) =
                documentMinutes file + snd (updateTiming t old new (taskStatOf tid file))"
    and other: "\<forall>other. other \<noteq> tid \<longrightarrow> taskMinutes other (Some r) = taskMinutes other file"
    by (auto simp: taskStatOf_saved documentMinutes_def)
  have c1: "(new = in_progress \<and> old \<noteq> in_progress \<longrightarrow>
        startedAt (taskStatOf tid (Some r)) = Some t \<and>
        taskMinutes tid (Some r) = taskMinutes tid file \<and>
        documentMinutes (Some r) = documentMinutes file)"
    by (simp add: taskMinutes_taskStatOf ts act updateTiming_def)
  have c2: "(new = completed \<and> old = in_progress \<longrightarrow>
        completedAt (taskStatOf tid (Some r)) = Some t \<and>
        (\<forall>s. startedAt (taskStatOf tid file) = Some s \<longrightarrow>
           taskMinutes tid (Some r) = taskMinutes tid file + Math_round (of_int (t - s) / 60000) \<and>
           documentMinutes (Some r) = documentMinutes file + Math_round (of_int (t - s) / 60000)) \<and>
        (startedAt (taskStatOf tid file) = None \<longrightarrow>
           taskMinutes tid (Some r) = taskMinutes tid file \<and>
           documentMinutes (Some r) = documentMinutes file))"
    by (auto simp: taskMinutes_taskStatOf ts act updateTiming_def Let_def split: option.splits)
  have c3: "(\<not> (new = completed \<and> old = in_progress) \<longrightarrow>
        taskMinutes tid (Some r) = taskMinutes tid file \<and>
        documentMinutes (Some r) = documentMinutes file)"
    by (auto simp: taskMinutes_taskStatOf ts act updateTiming_def Let_def split: option.splits)
  show ?thesis
    using r c1 c2 c3 other by - (rule exI[of _ r], intro conjI, assumption+)
qed


text \<open>
  The rule at work: a task started at an instant and completed 17 minutes later has 17
  minutes, as has the document; started again and completed 5 minutes later, 22.
\<close>

lemma updateTaskStatistics_timing_example:
  "taskMinutes ''t1'' stats_completed = 17 \<and> documentMinutes stats_completed = 17 \<and>
   taskMinutes ''t1'' stats_recompleted = 22 \<and> documentMinutes stats_recompleted = 22"
proof -
  let ?cur = example_curriculum
  have "\<not> isl (calculateFromCurriculum ?cur)"
    by code_simp
  then obtain fresh where fresh: "calculateFromCurriculum ?cur = Inr fresh"
    by (cases "calculateFromCurriculum ?cur") auto
  have start: "\<exists>r. updateTaskStatistics None t clock f ''cur-1'' ''t1'' old in_progress ?cur = (Inr r, Some r) \<and>
      startedAt (taskStatOf ''t1'' (Some r)) = Some t \<and>
      taskMinutes ''t1'' (Some r) = taskMinutes ''t1'' f \<and>
      documentMinutes (Some r) = documentMinutes f" if "old \<noteq> in_progress" for t clock f old
    using updateTaskStatistics_timing[OF fresh, of t clock f "''cur-1''" "''t1''" old in_progress] that
    by auto
  have finish: "\<exists>r. updateTaskStatistics None t clock f ''cur-1'' ''t1'' in_progress completed ?cur = (Inr r, Some r) \<and>
      taskMinutes ''t1'' (Some r) = taskMinutes ''t1'' f + Math_round (of_int (t - s) / 60000) \<and>
      documentMinutes (Some r) = documentMinutes f + Math_round (of_int (t - s) / 60000)"
    if "startedAt (taskStatOf ''t1'' f) = Some s" for t clock f s
    using updateTaskStatistics_timing[OF fresh, of t clock f "''cur-1''" "''t1''" in_progress completed] that
    by auto
  have m17: "Math_round (of_int (1000000 + 17 * 60000 - 1000000) / 60000) = 17"
    and m5: "Math_round (of_int (5000000 + 5 * 60000 - 5000000) / 60000) = 5"
    by code_simp+
  from start[of not_started 1000000 1000000 None]
  obtain r1 where r1: "stats_started = Some r1"
    and s1: "startedAt (taskStatOf ''t1'' (Some r1)) = Some 1000000"
    and t1: "taskMinutes ''t1'' (Some r1) = 0" and d1: "documentMinutes (Some r1) = 0"
    unfolding stats_started_def by (auto simp: taskMinutes_def documentMinutes_def)
  from finish[OF s1, of "1000000 + 17 * 60000" "1000000 + 17 * 60000"]
  obtain r2 where r2: "stats_completed = Some r2"
    and t2: "taskMinutes ''t1'' (Some r2) = 17" and d2: "documentMinutes (Some r2) = 17"
    unfolding stats_completed_def r1 m17 t1 d1 by auto
  from start[of completed 5000000 5000000 "Some r2"]
  obtain r3 where r3: "stats_restarted = Some r3"
    and s3: "startedAt (taskStatOf ''t1'' (Some r3)) = Some 5000000"
    and t3: "taskMinutes ''t1'' (Some r3) = 17" and d3: "documentMinutes (Some r3) = 17"
    unfolding stats_restarted_def r2 t2 d2 by auto
  from finish[OF s3, of "5000000 + 5 * 60000" "5000000 + 5 * 60000"]
  obtain r4 where r4: "stats_recompleted = Some r4"
    and t4: "taskMinutes ''t1'' (Some r4) = 22" and d4: "documentMinutes (Some r4) = 22"
    unfolding stats_recompleted_def r3 m5 t3 d3 by auto
  from r2 t2 d2 r4 t4 d4 show ?thesis by simp
qed

text \<open>
  C4. The rule above is what the specification states, and it holds whenever every task of the
  curriculum has a text as its estimate. It fails on a curriculum the program itself stores:
  when the model answers \<^verbatim>\<open>"estimatedTime": 30\<close>, the curriculum parser keeps the number,
  and on entering \<open>in_progress\<close> the statistics update throws a \<^verbatim>\<open>TypeError\<close> in
  \<open>calculateFromCurriculum\<close>: nothing is returned, no \<open>startedAt\<close> is stamped and no
  statistics are saved. The same call on the same curriculum with the estimate
  \<^verbatim>\<open>"30 min"\<close> returns and stamps \<open>startedAt\<close>.
\<close>

theorem updateTaskStatistics_numeric_estimate:
  "parseTask ''t1'' example_model_task =
     Inr (example_task ''t1'' not_started (JNum 30)) \<and>
   tasks (hd (chapters example_numeric_curriculum)) =
     [(example_task ''t1'' not_started (JNum 30))\<lparr>status := in_progress\<rparr>,
      example_task ''t2'' in_progress (JStr ''about an hour'')] \<and>
   updateTaskStatistics None 1000000 1000000 None ''cur-1'' ''t1'' not_started in_progress
       example_numeric_curriculum =
     (Inl (TypeError ''task.estimatedTime.match is not a function''), None) \<and>
   startedAt (taskStatOf ''t1''
     (snd (updateTaskStatistics None 1000000 1000000 None ''cur-1'' ''t1'' not_started in_progress
        example_numeric_curriculum))) = None \<and>
   \<not> isl (fst (updateTaskStatistics None 1000000 1000000 None ''cur-1'' ''t1'' not_started
       in_progress example_curriculum)) \<and>
   startedAt (taskStatOf ''t1'' stats_started) = Some 1000000"
  by code_simp


section \<open>A task that is not found\<close>

lemma setTaskStatus_None:
  "tid \<notin> task_id ` set (concat (map tasks chs)) \<Longrightarrow> setTaskStatus tid st chs = None"
proof (induction chs)
  case Nil
  then show ?case by simp
next
  case (Cons ch chs)
  then have "findIndex (\<lambda>t. task_id t = tid) (tasks ch) = None"
    by (auto simp: findIndex_None)
  with Cons show ?case by auto
qed

text \<open>
  C5. When no curriculum is stored, or no task of the stored curriculum has the id,
  \<open>updateTaskStatus\<close> returns \<^verbatim>\<open>null\<close> and throws nothing, and the curriculum file is what
  it was; nothing is written, since this holds whether or not a write would succeed.
\<close>

theorem updateTaskStatus_not_found:
  "(file = None \<or> (\<exists>c. file = Some c \<and> tid \<notin> task_id ` set (allTasks c))) \<longrightarrow>
   updateTaskStatus writeError t file tid st = (Inr None, file)"
  by (auto simp: updateTaskStatus_def loadCurriculum_def allTasks_def setTaskStatus_None)

theorem updateTaskStatus_not_found_witness:
  "updateTaskStatus (Some (Error ''disk full'')) 5 None ''t1'' completed = (Inr None, None) \<and>
   updateTaskStatus (Some (Error ''disk full'')) 5 (Some example_curriculum) ''t9'' completed =
     (Inr None, Some example_curriculum)"
proof -
  have "''t9'' \<notin> task_id ` set (allTasks example_curriculum)"
    by (simp add: allTasks_def example_curriculum_def example_task_def)
  with updateTaskStatus_not_found[of None "''t1''" "Some (Error ''disk full'')" 5 completed]
    updateTaskStatus_not_found[of "Some example_curriculum" "''t9''" "Some (Error ''disk full'')" 5 completed]
  show ?thesis by blast
qed

section \<open>Setting the status a task already has\<close>

lemma setTaskStatus_same:
  "findTaskStatus tid chs = Some st \<Longrightarrow> setTaskStatus tid st chs = Some chs"
proof (induction chs)
  case Nil
  then show ?case by simp
next
  case (Cons ch chs)
  show ?case
  proof (cases "findIndex (\<lambda>t. task_id t = tid) (tasks ch)")
    case None
    then have "find (\<lambda>t. task_id t = tid) (tasks ch) = None"
      by (simp add: find_None_findIndex)
    with None Cons show ?thesis by simp
  next
    case (Some i)
    then have i: "i < length (tasks ch)" "find (\<lambda>t. task_id t = tid) (tasks ch) = Some (tasks ch ! i)"
      using findIndex_Some by fastforce+
    with Cons.prems have "status (tasks ch ! i) = st" by simp
    then have "(tasks ch)[i := (tasks ch ! i)\<lparr>status := st\<rparr>] = tasks ch"
      by (metis list_update_id TaskData.surjective TaskData.update_convs(4))
    with Some show ?thesis by simp
  qed
qed

lemma updateTaskStatus_same:
  assumes "findTaskStatus tid (chapters c) = Some st"
  shows "updateTaskStatus None t (Some c) tid st =
           (Inr (Some (c\<lparr>updatedAt := t\<rparr>)), Some (c\<lparr>updatedAt := t\<rparr>))"
    and "updateTaskStatus (Some e) t (Some c) tid st = (Inl e, Some c)"
  using setTaskStatus_same[OF assms]
  by (simp_all add: updateTaskStatus_def loadCurriculum_def saveCurriculum_def Let_def)

lemma updateTiming_same: "updateTiming t st st ts = (ts, 0)"
  by (cases st) (simp_all add: updateTiming_def)

lemma updateTaskStatistics_same:
  "documentMinutes (snd (updateTaskStatistics w t clock file cid tid st st cur)) = documentMinutes file \<and>
   taskMinutes other (snd (updateTaskStatistics w t clock file cid tid st st cur)) = taskMinutes other file"
proof (cases "calculateFromCurriculum cur")
  case (Inl e)
  then show ?thesis by (simp add: updateTaskStatistics_throws)
next
  case (Inr fresh)
  show ?thesis
  proof (cases w)
    case (Some e)
    then show ?thesis by (simp add: updateTaskStatistics_failed)
  next
    case None
    from updateTaskStatistics_saved[OF Inr, of t clock "file" cid tid st st]
    obtain r where r: "updateTaskStatistics None t clock file cid tid st st cur = (Inr r, Some r)"
      and ts: "find (\<lambda>ts. taskId ts = tid) (taskStats r) = Some (taskStatOf tid file)"
      and act: "actualTimeSpentMinutes r = documentMinutes file"
      and other: "\<forall>other. other \<noteq> tid \<longrightarrow> taskMinutes other (Some r) = taskMinutes other file"
      by (auto simp: updateTiming_same)
    have "taskMinutes tid (Some r) = taskMinutes tid file"
      using ts by (simp add: taskMinutes_taskStatOf taskStatOf_saved)
    with other have "taskMinutes other (Some r) = taskMinutes other file"
      by (cases "other = tid") auto
    with None r act show ?thesis by (simp add: documentMinutes_def)
  qed
qed

text \<open>
  C6. When the stored curriculum has the task and the request sets the status the task
  already has, the curriculum file after \<open>updateTaskProgress\<close> is the stored curriculum with
  at most \<open>updatedAt\<close> changed, and it is the stored curriculum with \<open>updatedAt\<close> set to the
  time of the call when the call goes through to a write that succeeds; the minutes of the
  document and of every task in the statistics file are what they were. In particular
  \<open>updateTaskStatus\<close> itself returns and saves the curriculum with only \<open>updatedAt\<close> set anew.
\<close>

theorem updateTaskProgress_same_status:
  assumes "curriculumFile ws = Some c"
    and "findTaskStatus tid (chapters c) = Some (statusMap reqStatus)"
  shows "(curriculumFile (snd (updateTaskProgress cl ws tid reqStatus)) = Some c \<or>
          curriculumFile (snd (updateTaskProgress cl ws tid reqStatus)) =
            Some (c\<lparr>updatedAt := clockStatus cl\<rparr>)) \<and>
         (workspacePath cl \<noteq> [] \<and> tid \<noteq> [] \<and> curriculumWriteError cl = None \<longrightarrow>
          curriculumFile (snd (updateTaskProgress cl ws tid reqStatus)) =
            Some (c\<lparr>updatedAt := clockStatus cl\<rparr>)) \<and>
         documentMinutes (statsFile (snd (updateTaskProgress cl ws tid reqStatus))) =
           documentMinutes (statsFile ws) \<and>
         (\<forall>other. taskMinutes other (statsFile (snd (updateTaskProgress cl ws tid reqStatus))) =
                   taskMinutes other (statsFile ws)) \<and>
         updateTaskStatus None t (Some c) tid (statusMap reqStatus) =
           (Inr (Some (c\<lparr>updatedAt := t\<rparr>)), Some (c\<lparr>updatedAt := t\<rparr>))"
proof -
  let ?st = "statusMap reqStatus"
  let ?c' = "c\<lparr>updatedAt := clockStatus cl\<rparr>"
  note same = updateTaskStatus_same[OF assms(2)]
  have stats: "documentMinutes (snd (updateTaskStatistics w u clock (statsFile ws) cid tid ?st ?st cur)) =
      documentMinutes (statsFile ws) \<and>
    (\<forall>other. taskMinutes other (snd (updateTaskStatistics w u clock (statsFile ws) cid tid ?st ?st cur)) =
      taskMinutes other (statsFile ws))" for w u clock cid cur
    using updateTaskStatistics_same by blast
  show ?thesis
  proof (cases "workspacePath cl = [] \<or> tid = []")
    case True
    with assms(1) same(1) show ?thesis
      by (auto simp: updateTaskProgress_def)
  next
    case False
    show ?thesis
    proof (cases "curriculumWriteError cl")
      case (Some e)
      with False assms same show ?thesis
        by (simp add: updateTaskProgress_def loadCurriculum_def)
    next
      case None
      obtain res sf where u: "updateTaskStatistics (statsWriteError cl) (clockStatistics cl)
          (clockStreak cl) (statsFile ws) (curriculum_id ?c') tid ?st ?st ?c' = (res, sf)"
        by (cases "updateTaskStatistics (statsWriteError cl) (clockStatistics cl)
          (clockStreak cl) (statsFile ws) (curriculum_id ?c') tid ?st ?st ?c'")
      with stats[of "statsWriteError cl" "clockStatistics cl" "clockStreak cl" "curriculum_id ?c'" ?c']
      have sf: "documentMinutes sf = documentMinutes (statsFile ws)"
        "\<forall>other. taskMinutes other sf = taskMinutes other (statsFile ws)"
        by simp_all
      from None False assms same u sf show ?thesis
        by (cases res) (simp_all add: updateTaskProgress_def loadCurriculum_def)
    qed
  qed
qed

lemma example_minutes:
  "documentMinutes stats_completed = 17 \<and> taskMinutes ''t1'' stats_completed = 17 \<and>
   taskMinutes ''t2'' stats_completed = 0"
  by code_simp

theorem updateTaskProgress_same_status_witness:
  "curriculumFile (snd (updateTaskProgress example_call example_workspace ''t2'' TASK_STATUS_IN_PROGRESS)) =
     Some (example_curriculum\<lparr>updatedAt := 7000000\<rparr>) \<and>
   documentMinutes
     (statsFile (snd (updateTaskProgress example_call example_workspace ''t2'' TASK_STATUS_IN_PROGRESS))) = 17 \<and>
   taskMinutes ''t1''
     (statsFile (snd (updateTaskProgress example_call example_workspace ''t2'' TASK_STATUS_IN_PROGRESS))) = 17 \<and>
   taskMinutes ''t2''
     (statsFile (snd (updateTaskProgress example_call example_workspace ''t2'' TASK_STATUS_IN_PROGRESS))) = 0"
proof -
  have a: "curriculumFile example_workspace = Some example_curriculum"
    and s: "statsFile example_workspace = stats_completed"
    by (simp_all add: example_workspace_def)
  have b: "findTaskStatus ''t2'' (chapters example_curriculum) = Some (statusMap TASK_STATUS_IN_PROGRESS)"
    by (simp add: example_curriculum_def example_task_def)
  have c: "workspacePath example_call \<noteq> [] \<and> ''t2'' \<noteq> [] \<and> curriculumWriteError example_call = None"
    and k: "clockStatus example_call = 7000000"
    by (simp_all add: example_call_def)
  from updateTaskProgress_same_status[OF a b, of example_call 0] c
  show ?thesis
    unfolding s k using example_minutes by simp
qed

section \<open>The bounds of the structure walk\<close>


lemma analyzeStructure_directory:
  "\<not> isFileNode (fst (analyzeStructure lc dirPath listing depth totalFiles))"
  by (subst analyzeStructure.simps) (simp add: Let_def split_beta split: option.splits)

lemma walk_counter:
  "totalFiles \<le> MAX_TOTAL_FILES \<Longrightarrow>
     snd (analyzeStructure lc dirPath listing depth totalFiles) \<le> MAX_TOTAL_FILES \<and>
     totalFiles \<le> snd (analyzeStructure lc dirPath listing depth totalFiles) \<and>
     countFiles (fst (analyzeStructure lc dirPath listing depth totalFiles)) + totalFiles =
       snd (analyzeStructure lc dirPath listing depth totalFiles)"
  and
  "totalFiles \<le> MAX_TOTAL_FILES \<Longrightarrow>
     snd (walkEntries lc dirPath depth es fileCount totalFiles acc) \<le> MAX_TOTAL_FILES \<and>
     totalFiles \<le> snd (walkEntries lc dirPath depth es fileCount totalFiles acc) \<and>
     sum_list (map countFiles (fst (walkEntries lc dirPath depth es fileCount totalFiles acc))) + totalFiles =
       sum_list (map countFiles acc) + snd (walkEntries lc dirPath depth es fileCount totalFiles acc)"
proof (induction lc dirPath listing depth totalFiles and lc dirPath depth es fileCount totalFiles acc
    rule: analyzeStructure_walkEntries.induct)
  case (1 lc dirPath listing depth totalFiles)
  show ?case
  proof (cases "depth \<ge> MAX_DEPTH \<or> totalFiles \<ge> MAX_TOTAL_FILES \<or> listing = None")
    case True
    with "1.prems" show ?thesis
      by (subst (1 2 3 4) analyzeStructure.simps) (auto simp: Let_def)
  next
    case False
    then obtain entries where l: "listing = Some entries" by auto
    from False l "1.IH"[OF refl _ l] "1.prems"
    have "snd (walkEntries lc dirPath depth (sortEntries lc entries) 0 totalFiles []) \<le> MAX_TOTAL_FILES \<and>
      totalFiles \<le> snd (walkEntries lc dirPath depth (sortEntries lc entries) 0 totalFiles []) \<and>
      sum_list (map countFiles (fst (walkEntries lc dirPath depth (sortEntries lc entries) 0 totalFiles []))) + totalFiles =
        snd (walkEntries lc dirPath depth (sortEntries lc entries) 0 totalFiles [])"
      by simp
    with False l show ?thesis
      by (subst (1 2 3 4) analyzeStructure.simps) (simp add: Let_def split_beta)
  qed
next
  case (2 lc dirPath depth fileCount totalFiles acc)
  then show ?case by simp
next
  case (3 lc dirPath depth entry rest fileCount totalFiles acc)
  show ?case
  proof (cases "skipped_entry entry")
    case True
    with 3 show ?thesis by simp
  next
    case notSkipped: False
    show ?thesis
    proof (cases "fileCount \<ge> MAX_FILES_PER_DIR \<or> totalFiles \<ge> MAX_TOTAL_FILES")
      case True
      with notSkipped "3.prems" show ?thesis by auto
    next
      case False
      show ?thesis
      proof (cases entry)
        case (FsFile n)
        with notSkipped False "3.IH"(2)[OF notSkipped _ _ refl FsFile] "3.prems"
        show ?thesis by (simp add: Let_def)
      next
        case (FsDir n listing)
        let ?r = "analyzeStructure lc (joinPath dirPath (entryName entry)) listing (depth + 1) totalFiles"
        from notSkipped False "3.IH"(3)[OF notSkipped _ _ refl FsDir] "3.prems"
        have a: "snd ?r \<le> MAX_TOTAL_FILES" "totalFiles \<le> snd ?r"
          "countFiles (fst ?r) + totalFiles = snd ?r"
          by simp_all
        from notSkipped False "3.IH"(4)[OF notSkipped _ _ refl FsDir refl prod.collapse] a(1)
        have b: "snd (walkEntries lc dirPath depth rest fileCount (snd ?r) (acc @ [fst ?r])) \<le> MAX_TOTAL_FILES \<and>
          snd ?r \<le> snd (walkEntries lc dirPath depth rest fileCount (snd ?r) (acc @ [fst ?r])) \<and>
          sum_list (map countFiles (fst (walkEntries lc dirPath depth rest fileCount (snd ?r) (acc @ [fst ?r])))) + snd ?r =
            sum_list (map countFiles (acc @ [fst ?r])) +
            snd (walkEntries lc dirPath depth rest fileCount (snd ?r) (acc @ [fst ?r]))"
          by simp
        with a notSkipped False FsDir show ?thesis
          by (simp add: Let_def split_beta)
      qed
    qed
  qed
qed


lemma walk_per_dir:
  "filesPerDirAtMost MAX_FILES_PER_DIR (fst (analyzeStructure lc dirPath listing depth totalFiles))"
  and
  "length (filter isFileNode acc) = fileCount \<Longrightarrow> fileCount \<le> MAX_FILES_PER_DIR \<Longrightarrow>
   list_all (filesPerDirAtMost MAX_FILES_PER_DIR) acc \<Longrightarrow>
     length (filter isFileNode (fst (walkEntries lc dirPath depth es fileCount totalFiles acc)))
       \<le> MAX_FILES_PER_DIR \<and>
     list_all (filesPerDirAtMost MAX_FILES_PER_DIR)
       (fst (walkEntries lc dirPath depth es fileCount totalFiles acc))"
proof (induction lc dirPath listing depth totalFiles and lc dirPath depth es fileCount totalFiles acc
    rule: analyzeStructure_walkEntries.induct)
  case (1 lc dirPath listing depth totalFiles)
  show ?case
  proof (cases "depth \<ge> MAX_DEPTH \<or> totalFiles \<ge> MAX_TOTAL_FILES \<or> listing = None")
    case True
    then show ?thesis
      by (subst analyzeStructure.simps) (auto simp: Let_def)
  next
    case False
    then obtain entries where l: "listing = Some entries" by auto
    from False l "1.IH"[OF refl _ l]
    have "length (filter isFileNode
             (fst (walkEntries lc dirPath depth (sortEntries lc entries) 0 totalFiles [])))
            \<le> MAX_FILES_PER_DIR \<and>
          list_all (filesPerDirAtMost MAX_FILES_PER_DIR)
            (fst (walkEntries lc dirPath depth (sortEntries lc entries) 0 totalFiles []))"
      by simp
    with False l show ?thesis
      by (subst analyzeStructure.simps) (simp add: Let_def split_beta)
  qed
next
  case (2 lc dirPath depth fileCount totalFiles acc)
  then show ?case by simp
next
  case (3 lc dirPath depth entry rest fileCount totalFiles acc)
  show ?case
  proof (cases "skipped_entry entry")
    case True
    with 3 show ?thesis by simp
  next
    case notSkipped: False
    show ?thesis
    proof (cases "fileCount \<ge> MAX_FILES_PER_DIR \<or> totalFiles \<ge> MAX_TOTAL_FILES")
      case True
      with notSkipped "3.prems" show ?thesis by auto
    next
      case False
      show ?thesis
      proof (cases entry)
        case (FsFile n)
        from False "3.prems"
        have "length (filter isFileNode
                 (acc @ [DirectoryNode n (joinPath dirPath (entryName entry)) type_file None])) =
               fileCount + 1"
          and "fileCount + 1 \<le> MAX_FILES_PER_DIR"
          and "list_all (filesPerDirAtMost MAX_FILES_PER_DIR)
                 (acc @ [DirectoryNode n (joinPath dirPath (entryName entry)) type_file None])"
          by simp_all
        from "3.IH"(2)[OF notSkipped _ _ refl FsFile this] notSkipped False FsFile
        show ?thesis by (simp add: Let_def)
      next
        case (FsDir n listing)
        let ?r = "analyzeStructure lc (joinPath dirPath (entryName entry)) listing (depth + 1) totalFiles"
        from notSkipped False "3.IH"(3)[OF notSkipped _ _ refl FsDir]
        have a: "filesPerDirAtMost MAX_FILES_PER_DIR (fst ?r)" by simp
        from "3.prems" a
        have "length (filter isFileNode (acc @ [fst ?r])) = fileCount"
          and "fileCount \<le> MAX_FILES_PER_DIR"
          and "list_all (filesPerDirAtMost MAX_FILES_PER_DIR) (acc @ [fst ?r])"
          by (simp_all add: analyzeStructure_directory)
        from "3.IH"(4)[OF notSkipped _ _ refl FsDir refl prod.collapse this] notSkipped False FsDir
        show ?thesis by (simp add: Let_def split_beta)
      qed
    qed
  qed
qed

lemma height_le_Suc:
  "(height (DirectoryNode n p t (Some l)) \<le> Suc k) = list_all (\<lambda>c. height c \<le> k) l"
  by (induction l) auto

lemma walk_height:
  "depth \<le> MAX_DEPTH \<Longrightarrow>
     height (fst (analyzeStructure lc dirPath listing depth totalFiles)) \<le> MAX_DEPTH - depth"
  and
  "depth < MAX_DEPTH \<Longrightarrow> list_all (\<lambda>c. height c \<le> MAX_DEPTH - Suc depth) acc \<Longrightarrow>
     list_all (\<lambda>c. height c \<le> MAX_DEPTH - Suc depth)
       (fst (walkEntries lc dirPath depth es fileCount totalFiles acc))"
proof (induction lc dirPath listing depth totalFiles and lc dirPath depth es fileCount totalFiles acc
    rule: analyzeStructure_walkEntries.induct)
  case (1 lc dirPath listing depth totalFiles)
  show ?case
  proof (cases "depth \<ge> MAX_DEPTH \<or> totalFiles \<ge> MAX_TOTAL_FILES \<or> listing = None")
    case True
    then show ?thesis
      by (subst analyzeStructure.simps) (auto simp: Let_def)
  next
    case False
    then obtain entries where l: "listing = Some entries" by auto
    from False have d: "depth < MAX_DEPTH" by simp
    then have s: "MAX_DEPTH - depth = Suc (MAX_DEPTH - Suc depth)" by simp
    from False l d "1.IH"[OF refl _ l]
    have "list_all (\<lambda>c. height c \<le> MAX_DEPTH - Suc depth)
            (fst (walkEntries lc dirPath depth (sortEntries lc entries) 0 totalFiles []))"
      by simp
    then have "height (DirectoryNode nm dirPath type_directory
                 (Some (fst (walkEntries lc dirPath depth (sortEntries lc entries) 0 totalFiles []))))
               \<le> MAX_DEPTH - depth" for nm
      unfolding s height_le_Suc .
    with False l show ?thesis
      by (subst analyzeStructure.simps) (simp add: Let_def split_beta del: height.simps)
  qed
next
  case (2 lc dirPath depth fileCount totalFiles acc)
  then show ?case by simp
next
  case (3 lc dirPath depth entry rest fileCount totalFiles acc)
  show ?case
  proof (cases "skipped_entry entry")
    case True
    with 3 show ?thesis by simp
  next
    case notSkipped: False
    show ?thesis
    proof (cases "fileCount \<ge> MAX_FILES_PER_DIR \<or> totalFiles \<ge> MAX_TOTAL_FILES")
      case True
      with notSkipped "3.prems" show ?thesis by auto
    next
      case False
      show ?thesis
      proof (cases entry)
        case (FsFile n)
        from "3.prems"
        have "list_all (\<lambda>c. height c \<le> MAX_DEPTH - Suc depth)
                (acc @ [DirectoryNode n (joinPath dirPath (entryName entry)) type_file None])"
          by simp
        from "3.IH"(2)[OF notSkipped _ _ refl FsFile "3.prems"(1) this] notSkipped False FsFile
        show ?thesis by (simp add: Let_def)
      next
        case (FsDir n listing)
        let ?r = "analyzeStructure lc (joinPath dirPath (entryName entry)) listing (depth + 1) totalFiles"
        from "3.prems"(1) have "depth + 1 \<le> MAX_DEPTH" by simp
        from "3.IH"(3)[OF notSkipped _ _ refl FsDir this] False
        have "height (fst ?r) \<le> MAX_DEPTH - Suc depth" by simp
        with "3.prems"
        have "list_all (\<lambda>c. height c \<le> MAX_DEPTH - Suc depth) (acc @ [fst ?r])"
          by simp
        from "3.IH"(4)[OF notSkipped _ _ refl FsDir refl prod.collapse "3.prems"(1) this]
          notSkipped False FsDir
        show ?thesis by (simp add: Let_def split_beta)
      qed
    qed
  qed
qed

text \<open>
  C8. For every directory tree (and every order \<^verbatim>\<open>localeCompare\<close> gives), the tree that the
  structure walk returns has no node more than 4 levels below the root, has at most 50 file
  nodes among the children of any node, and has at most 500 file nodes in all. A directory
  reached at depth 4, or once 500 files are counted, is returned without being read; an entry
  that is not skipped and is met once 50 files of its directory or 500 files in all are
  counted ends the loop, which returns the children it has, and nothing is raised.
\<close>

theorem analyze_structure_bounded:
  "height (analyze_structure lc rootPath listing) \<le> 4 \<and>
   filesPerDirAtMost 50 (analyze_structure lc rootPath listing) \<and>
   countFiles (analyze_structure lc rootPath listing) \<le> 500 \<and>
   (\<not> skipped_entry entry \<and> (fileCount \<ge> 50 \<or> totalFiles \<ge> 500) \<longrightarrow>
      walkEntries lc dirPath depth (entry # rest) fileCount totalFiles acc = (acc, totalFiles)) \<and>
   (d \<ge> 4 \<or> n \<ge> 500 \<longrightarrow>
      children (fst (analyzeStructure lc p dirListing d n)) = Some [] \<and>
      snd (analyzeStructure lc p dirListing d n) = n)"
proof -
  have h: "height (analyze_structure lc rootPath listing) \<le> 4"
    using walk_height(1)[of 0 lc rootPath listing 0]
    by (simp add: analyze_structure_def MAX_DEPTH_def)
  have f: "filesPerDirAtMost 50 (analyze_structure lc rootPath listing)"
    using walk_per_dir(1)[of lc rootPath listing 0 0]
    by (simp add: analyze_structure_def MAX_FILES_PER_DIR_def)
  have c: "countFiles (analyze_structure lc rootPath listing) \<le> 500"
    using walk_counter(1)[of 0 lc rootPath listing 0]
    by (simp add: analyze_structure_def MAX_TOTAL_FILES_def)
  have w: "\<not> skipped_entry entry \<and> (fileCount \<ge> 50 \<or> totalFiles \<ge> 500) \<longrightarrow>
      walkEntries lc dirPath depth (entry # rest) fileCount totalFiles acc = (acc, totalFiles)"
    by (auto simp: MAX_FILES_PER_DIR_def MAX_TOTAL_FILES_def)
  have a: "d \<ge> 4 \<or> n \<ge> 500 \<longrightarrow>
      children (fst (analyzeStructure lc p dirListing d n)) = Some [] \<and>
      snd (analyzeStructure lc p dirListing d n) = n"
    by (subst (1 2) analyzeStructure.simps)
       (auto simp: Let_def MAX_DEPTH_def MAX_TOTAL_FILES_def)
  from h f c w a show ?thesis by (intro conjI)
qed

theorem analyze_structure_bounded_witness:
  "height (analyze_structure example_lc ''/w'' example_deep_tree) \<le> 4 \<and>
   filesPerDirAtMost 50 (analyze_structure example_lc ''/w'' example_deep_tree) \<and>
   countFiles (analyze_structure example_lc ''/w'' example_wide_tree) \<le> 500 \<and>
   walkEntries example_lc ''/w'' 0 [FsFile ''a.ts'', FsFile ''b.ts''] 50 50 [] = ([], 50) \<and>
   children (fst (analyzeStructure example_lc ''/w/d1/d2/d3/d4'' (Some [FsFile ''x.ts'']) 4 10)) =
     Some []"
proof -
  have s: "\<not> skipped_entry (FsFile ''a.ts'') \<and> ((50::nat) \<ge> 50 \<or> (50::nat) \<ge> 500)"
    by (simp add: skipped_entry_def EXCLUDED_DIRS_def startsWith_def)
  have d: "(4::nat) \<ge> 4 \<or> (10::nat) \<ge> 500" by simp
  note deep = analyze_structure_bounded[where lc = example_lc and rootPath = "''/w''"
      and listing = example_deep_tree and entry = "FsFile ''a.ts''" and fileCount = 50
      and totalFiles = 50 and dirPath = "''/w''" and depth = 0 and rest = "[FsFile ''b.ts'']"
      and acc = "[]" and d = 4 and n = 10 and p = "''/w/d1/d2/d3/d4''"
      and dirListing = "Some [FsFile ''x.ts'']"]
  note wide = analyze_structure_bounded[where lc = example_lc and rootPath = "''/w''"
      and listing = example_wide_tree and entry = "FsFile ''a.ts''" and fileCount = 50
      and totalFiles = 50 and d = 4 and n = 10]
  from deep have 1: "height (analyze_structure example_lc ''/w'' example_deep_tree) \<le> 4"
    and 2: "filesPerDirAtMost 50 (analyze_structure example_lc ''/w'' example_deep_tree)"
    by (rule conjunct1, rule conjunct2[THEN conjunct1])
  from wide have 3: "countFiles (analyze_structure example_lc ''/w'' example_wide_tree) \<le> 500"
    by (rule conjunct2[THEN conjunct2, THEN conjunct1])
  from deep have "\<not> skipped_entry (FsFile ''a.ts'') \<and> ((50::nat) \<ge> 50 \<or> (50::nat) \<ge> 500) \<longrightarrow>
      walkEntries example_lc ''/w'' 0 (FsFile ''a.ts'' # [FsFile ''b.ts'']) 50 50 [] = ([], 50)"
    by (rule conjunct2[THEN conjunct2, THEN conjunct2, THEN conjunct1])
  with s have 4: "walkEntries example_lc ''/w'' 0 [FsFile ''a.ts'', FsFile ''b.ts''] 50 50 [] = ([], 50)"
    by (rule rev_mp)
  from deep have "(4::nat) \<ge> 4 \<or> (10::nat) \<ge> 500 \<longrightarrow>
      children (fst (analyzeStructure example_lc ''/w/d1/d2/d3/d4'' (Some [FsFile ''x.ts'']) 4 10)) = Some [] \<and>
      snd (analyzeStructure example_lc ''/w/d1/d2/d3/d4'' (Some [FsFile ''x.ts'']) 4 10) = 10"
    by (rule conjunct2[THEN conjunct2, THEN conjunct2, THEN conjunct2])
  with d have 5: "children (fst (analyzeStructure example_lc ''/w/d1/d2/d3/d4'' (Some [FsFile ''x.ts'']) 4 10)) = Some []"
    by (rule rev_mp[THEN conjunct1])
  from 1 2 3 4 5 show ?thesis by (intro conjI)
qed

text \<open>A small tree: the skipped entry, the directories first, the directory at depth 4 left unread.\<close>

lemma example_small:
  "analyze_structure example_lc ''/w''
     (Some [FsFile ''b.ts'', FsDir ''.git'' None, FsFile ''.env.local'',
            FsDir ''d1'' (Some [FsDir ''d2'' (Some [FsDir ''d3'' (Some [FsDir ''d4''
               (Some [FsFile ''x.ts''])])])]), FsDir ''locked'' None]) =
   DirectoryNode ''w'' ''/w'' type_directory (Some
     [DirectoryNode ''d1'' ''/w/d1'' type_directory (Some
        [DirectoryNode ''d2'' ''/w/d1/d2'' type_directory (Some
           [DirectoryNode ''d3'' ''/w/d1/d2/d3'' type_directory (Some
              [DirectoryNode ''d4'' ''/w/d1/d2/d3/d4'' type_directory (Some [])])])]),
      DirectoryNode ''locked'' ''/w/locked'' type_directory (Some []),
      DirectoryNode ''b.ts'' ''/w/b.ts'' type_file None,
      DirectoryNode ''.env.local'' ''/w/.env.local'' type_file None])"
  by code_simp

end
